theory Spec2Isabelle
  imports Complex_Main "HOL-Library.Word"
begin

unbundle bit_operations_syntax

section \<open>The polymorphic handle: util/taggedptr.h\<close>

text \<open>
  A \<open>TaggedPointer<Ts...>\<close> holds one \<open>uint64_t bits\<close>. The template pack is
  represented by its size \<open>n = sizeof...(Ts)\<close>, and a member type of the pack by its
  position \<open>k\<close> (the value of \<open>IndexOf<T, Types>::count\<close>, declared in
  util/containers.h). The template argument of \<open>TypeIndex\<close>, \<open>Is\<close>, \<open>Cast\<close> is a
  \<open>nat option\<close>: \<open>None\<close> stands for \<open>std::nullptr_t\<close>, \<open>Some k\<close> for the k-th type.
  A pointer is its address, a \<open>uint64_t\<close>; \<open>nullptr\<close> is the address 0.

  \<open>DCHECK\<close>, \<open>DCHECK_EQ\<close>, \<open>DCHECK_GE\<close>, \<open>DCHECK_LT\<close> are modelled as they behave
  in a build that has them enabled: a failed check is the result \<open>Inl CheckFailed\<close>.
\<close>

datatype error = CheckFailed

record TaggedPointer =
  bits :: "64 word"

definition tagShift :: nat where
  "tagShift = 57"

definition tagBits :: nat where
  "tagBits = 64 - tagShift"

definition tagMask :: "64 word" where
  "tagMask = push_bit tagShift (push_bit tagBits 1 - 1)"

definition ptrMask :: "64 word" where
  "ptrMask = NOT tagMask"

text \<open>\<open>TaggedPointer() = default\<close>: the member initialiser \<open>bits = 0\<close>.\<close>

definition TaggedPointer_default :: TaggedPointer where
  "TaggedPointer_default = \<lparr>bits = 0\<rparr>"

text \<open>\<open>TaggedPointer(std::nullptr_t np) {}\<close>: the body is empty, \<open>bits\<close> keeps its initialiser.\<close>

definition TaggedPointer_nullptr :: TaggedPointer where
  "TaggedPointer_nullptr = \<lparr>bits = 0\<rparr>"

text \<open>\<open>TaggedPointer(const TaggedPointer &t) { bits = t.bits; }\<close>\<close>

definition TaggedPointer_copy :: "TaggedPointer \<Rightarrow> TaggedPointer" where
  "TaggedPointer_copy t = \<lparr>bits = bits t\<rparr>"

text \<open>\<open>TypeIndex<T>()\<close>, an \<open>unsigned int\<close>.\<close>

fun TypeIndex :: "nat option \<Rightarrow> 32 word" where
  "TypeIndex None = 0"
| "TypeIndex (Some k) = 1 + of_nat k"

text \<open>
  \<open>TaggedPointer(T *ptr)\<close>: the check that the address fits below the tag, then
  \<open>bits = iptr | ((uint64_t)type << tagShift)\<close>.
\<close>

definition TaggedPointer_ptr :: "nat \<Rightarrow> 64 word \<Rightarrow> error + TaggedPointer" where
  "TaggedPointer_ptr k iptr =
     (if iptr AND ptrMask \<noteq> iptr then Inl CheckFailed
      else let type = TypeIndex (Some k)
           in Inr \<lparr>bits = iptr OR push_bit tagShift (ucast type :: 64 word)\<rparr>)"

text \<open>\<open>Tag()\<close>: \<open>(bits & tagMask) >> tagShift\<close>, returned as \<open>unsigned int\<close>.\<close>

definition Tag :: "TaggedPointer \<Rightarrow> 32 word" where
  "Tag h = ucast (drop_bit tagShift (bits h AND tagMask))"

definition Is :: "TaggedPointer \<Rightarrow> nat option \<Rightarrow> bool" where
  "Is h T = (Tag h = TypeIndex T)"

text \<open>\<open>MaxTag()\<close> is \<open>sizeof...(Ts)\<close>; \<open>NumTags()\<close> is \<open>MaxTag() + 1\<close>.\<close>

definition MaxTag :: "nat \<Rightarrow> 32 word" where
  "MaxTag n = of_nat n"

definition NumTags :: "nat \<Rightarrow> 32 word" where
  "NumTags n = MaxTag n + 1"

definition ptr :: "TaggedPointer \<Rightarrow> 64 word" where
  "ptr h = bits h AND ptrMask"

text \<open>\<open>explicit operator bool\<close>, \<open>operator<\<close>, \<open>operator==\<close>, \<open>operator!=\<close>.\<close>

definition operator_bool :: "TaggedPointer \<Rightarrow> bool" where
  "operator_bool h = (bits h AND ptrMask \<noteq> 0)"

definition operator_less :: "TaggedPointer \<Rightarrow> TaggedPointer \<Rightarrow> bool" where
  "operator_less h tp = (bits h < bits tp)"


definition operator_neq :: "TaggedPointer \<Rightarrow> TaggedPointer \<Rightarrow> bool" where
  "operator_neq h tp = (bits h \<noteq> bits tp)"

text \<open>\<open>Cast<T>()\<close>: \<open>DCHECK(Is<T>())\<close>, then the address.\<close>

definition Cast :: "TaggedPointer \<Rightarrow> nat option \<Rightarrow> error + 64 word" where
  "Cast h T = (if \<not> Is h T then Inl CheckFailed else Inr (ptr h))"

text \<open>
  \<open>CastOrNullptr<T>()\<close> has no check. It is a member function that may be called on a
  non-const handle, so the model returns the pointer together with the handle as it is
  after the call.
\<close>

definition CastOrNullptr :: "TaggedPointer \<Rightarrow> nat option \<Rightarrow> 64 word \<times> TaggedPointer" where
  "CastOrNullptr h T = (if Is h T then (ptr h, h) else (0, h))"

text \<open>
  \<open>detail::Dispatch<F, R, Ts...>(func, ptr, index)\<close>. There is one overload for each
  pack size from 1 to 8 and a recursive one for larger packs, which handles the first
  eight types and passes \<open>index - 8\<close> on to the rest of the pack. \<open>n\<close> is the size
  of the pack the overload is instantiated at and \<open>off\<close> the number of types already
  peeled off, so that \<open>func (off + i) p\<close> is the call \<open>func((Ti *)ptr)\<close> for the type
  at position \<open>off + i\<close> of the handle's pack. No overload exists for an empty pack,
  where the call does not compile; the model lets it fail.
\<close>

fun detail_Dispatch :: "nat \<Rightarrow> nat \<Rightarrow> (nat \<Rightarrow> 64 word \<Rightarrow> 'r) \<Rightarrow> 64 word \<Rightarrow> int \<Rightarrow> error + 'r" where
  "detail_Dispatch n off func p index =
     (if n = 0 then Inl CheckFailed
      else if n = 1 then
        (if 0 \<noteq> index then Inl CheckFailed else Inr (func off p))
      else if n \<le> 8 then
        (if \<not> index \<ge> 0 then Inl CheckFailed
         else if \<not> index < int n then Inl CheckFailed
         else if index < int n - 1 then Inr (func (off + nat index) p)
         else Inr (func (off + (n - 1)) p))
      else
        (if \<not> index \<ge> 0 then Inl CheckFailed
         else if index < 8 then Inr (func (off + nat index) p)
         else detail_Dispatch (n - 8) (off + 8) func p (index - 8)))"

text \<open>\<open>detail::DispatchCPU\<close> has the same overloads with the same bodies.\<close>

fun detail_DispatchCPU :: "nat \<Rightarrow> nat \<Rightarrow> (nat \<Rightarrow> 64 word \<Rightarrow> 'r) \<Rightarrow> 64 word \<Rightarrow> int \<Rightarrow> error + 'r" where
  "detail_DispatchCPU n off func p index =
     (if n = 0 then Inl CheckFailed
      else if n = 1 then
        (if 0 \<noteq> index then Inl CheckFailed else Inr (func off p))
      else if n \<le> 8 then
        (if \<not> index \<ge> 0 then Inl CheckFailed
         else if \<not> index < int n then Inl CheckFailed
         else if index < int n - 1 then Inr (func (off + nat index) p)
         else Inr (func (off + (n - 1)) p))
      else
        (if \<not> index \<ge> 0 then Inl CheckFailed
         else if index < 8 then Inr (func (off + nat index) p)
         else detail_DispatchCPU (n - 8) (off + 8) func p (index - 8)))"

text \<open>
  \<open>TaggedPointer::Dispatch\<close> and \<open>DispatchCPU\<close>: \<open>DCHECK(ptr())\<close>, then the helper at
  \<open>Tag() - 1\<close>, an \<open>unsigned int\<close> converted to the \<open>int\<close> parameter.
\<close>

definition Dispatch :: "nat \<Rightarrow> (nat \<Rightarrow> 64 word \<Rightarrow> 'r) \<Rightarrow> TaggedPointer \<Rightarrow> error + 'r" where
  "Dispatch n func h =
     (if ptr h = 0 then Inl CheckFailed
      else detail_Dispatch n 0 func (ptr h) (sint (Tag h - 1)))"


text \<open>
  The handles that the public constructors produce for a pack of \<open>n\<close> types: the
  default constructor, the one from \<open>nullptr\<close>, the copy constructor applied to such
  a handle, and the constructor from a pointer to the k-th type of the pack when its
  address check passes.
\<close>

inductive constructed :: "nat \<Rightarrow> TaggedPointer \<Rightarrow> bool" for n :: nat where
  from_default: "constructed n TaggedPointer_default"
| from_nullptr: "constructed n TaggedPointer_nullptr"
| from_copy: "constructed n t \<Longrightarrow> constructed n (TaggedPointer_copy t)"
| from_ptr: "k < n \<Longrightarrow> TaggedPointer_ptr k iptr = Inr h \<Longrightarrow> constructed n h"

section \<open>Interaction records: interaction.h\<close>

text \<open>
  \<open>Float\<close> is the scalar type of pbrt.h. The functions modelled in this section only
  store, copy and compare such values; they are written as reals.
  \<open>Vector3f\<close>, \<open>Normal3f\<close> and \<open>Point3f\<close> are the three-component tuples of
  util/vecmath.h, which is not among the sources at hand; a default-constructed tuple
  has all components zero.
\<close>

type_synonym Float = real

datatype Tuple3 = Tuple3 Float Float Float

type_synonym Vector3f = Tuple3
type_synonym Normal3f = Tuple3
type_synonym Point3f = Tuple3
type_synonym Point2f = "Float \<times> Float"

text \<open>
  Modelled from the spec: \<open>Point3fi\<close> of util/vecmath.h, "a 3D point where each
  coordinate carries a numeric error bound (interval)". A coordinate is the pair of its
  lower and upper bound, and a \<open>Point3f\<close> converts to the point with no uncertainty.
\<close>

datatype Point3fi = Point3fi "Float \<times> Float" "Float \<times> Float" "Float \<times> Float"

fun Point3fi_of :: "Point3f \<Rightarrow> Point3fi" where
  "Point3fi_of (Tuple3 a b c) = Point3fi (a, a) (b, b) (c, c)"

text \<open>
  \<open>LengthSquared\<close> of util/vecmath.h, the sum of the squared components. It is used
  only to measure a stored direction, not by the constructors.
\<close>

fun LengthSquared :: "Vector3f \<Rightarrow> Float" where
  "LengthSquared (Tuple3 a b c) = a * a + b * b + c * c"

text \<open>
  \<open>v *= s\<close> of util/vecmath.h, each component times the scalar; the constructors use
  it with \<open>s = -1\<close>.
\<close>

fun Tuple3_times :: "Tuple3 \<Rightarrow> Float \<Rightarrow> Tuple3" where
  "Tuple3_times (Tuple3 a b c) s = Tuple3 (a * s) (b * s) (c * s)"

text \<open>
  The anonymous struct \<open>shading\<close> of \<open>SurfaceInteraction\<close>. Its members have the
  names of members of \<open>Interaction\<close> and \<open>SurfaceInteraction\<close>, which are declared
  further down; from there on they are written \<open>Shading.dpdu\<close> and so on.
\<close>

record Shading =
  n' :: Normal3f
  dpdu :: Vector3f
  dpdv :: Vector3f
  dndu :: Normal3f
  dndv :: Normal3f

text \<open>
  The members of \<open>Interaction\<close>, in declaration order. The members \<open>pi\<close> and \<open>n\<close>
  carry a prime because \<open>pi\<close> is the circle constant of the library and \<open>n\<close> is
  needed as a variable. \<open>mediumInterface\<close> is a raw pointer, \<open>medium\<close> a handle.
\<close>

record Interaction =
  pi' :: Point3fi
  time :: Float
  wo :: Vector3f
  n' :: Normal3f
  uv :: Point2f
  mediumInterface :: "64 word"
  medium :: TaggedPointer

text \<open>\<open>Interaction() = default\<close>: every member takes its default initialiser.\<close>

definition Interaction_default :: Interaction where
  "Interaction_default =
     \<lparr>pi' = Point3fi (0, 0) (0, 0) (0, 0), time = 0, wo = Tuple3 0 0 0, n' = Tuple3 0 0 0,
      uv = (0, 0), mediumInterface = 0, medium = TaggedPointer_nullptr\<rparr>"

text \<open>
  \<open>Interaction(Point3fi pi, Normal3f n, Point2f uv, Vector3f wo, Float time)\<close> with the
  initialisers \<open>pi(pi), n(n), uv(uv), wo(Normalize(wo)), time(time)\<close>. \<open>Normalize\<close>
  belongs to util/vecmath.h and is a parameter of the model.
\<close>

definition Interaction_pi_n_uv_wo_time ::
  "(Vector3f \<Rightarrow> Vector3f) \<Rightarrow> Point3fi \<Rightarrow> Normal3f \<Rightarrow> Point2f \<Rightarrow> Vector3f \<Rightarrow> Float \<Rightarrow> Interaction" where
  "Interaction_pi_n_uv_wo_time Normalize p_i n0 uv0 wo0 time0 =
     Interaction_default\<lparr>pi' := p_i, n' := n0, uv := uv0, wo := Normalize wo0, time := time0\<rparr>"

text \<open>\<open>IsSurfaceInteraction()\<close> is \<open>n != Normal3f(0, 0, 0)\<close>.\<close>

definition IsSurfaceInteraction :: "'a Interaction_scheme \<Rightarrow> bool" where
  "IsSurfaceInteraction i = (n' i \<noteq> Tuple3 0 0 0)"

definition IsMediumInteraction :: "'a Interaction_scheme \<Rightarrow> bool" where
  "IsMediumInteraction i = (\<not> IsSurfaceInteraction i)"

text \<open>
  The constructor marked "used by medium ctor":
  \<open>Interaction(Point3f p, Vector3f wo, Float time, Medium medium)\<close> with the initialisers
  \<open>pi(p), time(time), wo(wo), medium(medium)\<close>.
\<close>

definition Interaction_p_wo_time_medium ::
  "Point3f \<Rightarrow> Vector3f \<Rightarrow> Float \<Rightarrow> TaggedPointer \<Rightarrow> Interaction" where
  "Interaction_p_wo_time_medium p wo0 time0 medium0 =
     Interaction_default\<lparr>pi' := Point3fi_of p, time := time0, wo := wo0, medium := medium0\<rparr>"

record MediumInteraction = Interaction +
  phase :: TaggedPointer

text \<open>
  \<open>MediumInteraction(Point3f p, Vector3f wo, Float time, Medium medium, PhaseFunction phase)\<close>
  with the initialisers \<open>Interaction(p, wo, time, medium), phase(phase)\<close>.
\<close>

definition MediumInteraction_ctor ::
  "Point3f \<Rightarrow> Vector3f \<Rightarrow> Float \<Rightarrow> TaggedPointer \<Rightarrow> TaggedPointer \<Rightarrow> MediumInteraction" where
  "MediumInteraction_ctor p wo0 time0 medium0 phase0 =
     Interaction.extend (Interaction_p_wo_time_medium p wo0 time0 medium0)
       (MediumInteraction.fields phase0)"

text \<open>\<open>MediumInteraction() : phase(nullptr) {}\<close>\<close>

definition MediumInteraction_default :: MediumInteraction where
  "MediumInteraction_default =
     Interaction.extend Interaction_default (MediumInteraction.fields TaggedPointer_nullptr)"

record SurfaceInteraction = Interaction +
  dpdu :: Vector3f
  dpdv :: Vector3f
  dndu :: Normal3f
  dndv :: Normal3f
  shading :: Shading
  faceIndex :: "32 word"
  material :: TaggedPointer
  areaLight :: TaggedPointer
  dpdx :: Vector3f
  dpdy :: Vector3f
  dudx :: Float
  dvdx :: Float
  dudy :: Float
  dvdy :: Float

text \<open>
  \<open>SurfaceInteraction(Point3fi pi, Point2f uv, Vector3f wo, Vector3f dpdu, Vector3f dpdv,
  Normal3f dndu, Normal3f dndv, Float time, bool flipNormal)\<close>: the base is
  \<open>Interaction(pi, Normal3f(Normalize(Cross(dpdu, dpdv))), uv, wo, time)\<close>, the shading
  geometry is copied from the true geometry, and \<open>flipNormal\<close> multiplies both normals
  by \<open>-1\<close>. \<open>Normalize\<close> and \<open>Cross\<close> belong to util/vecmath.h and are parameters.
\<close>

definition SurfaceInteraction_ctor ::
  "(Vector3f \<Rightarrow> Vector3f) \<Rightarrow> (Vector3f \<Rightarrow> Vector3f \<Rightarrow> Vector3f) \<Rightarrow> Point3fi \<Rightarrow> Point2f
     \<Rightarrow> Vector3f \<Rightarrow> Vector3f \<Rightarrow> Vector3f \<Rightarrow> Normal3f \<Rightarrow> Normal3f \<Rightarrow> Float \<Rightarrow> bool
     \<Rightarrow> SurfaceInteraction" where
  "SurfaceInteraction_ctor Normalize Cross p_i uv0 wo0 dpdu0 dpdv0 dndu0 dndv0 time0 flipNormal =
     (let base = Interaction_pi_n_uv_wo_time Normalize p_i (Normalize (Cross dpdu0 dpdv0))
                   uv0 wo0 time0;
          si = Interaction.extend base
                 (SurfaceInteraction.fields dpdu0 dpdv0 dndu0 dndv0
                    \<lparr>Shading.n' = Interaction.n' base, Shading.dpdu = dpdu0, Shading.dpdv = dpdv0,
                     Shading.dndu = dndu0, Shading.dndv = dndv0\<rparr>
                    0 TaggedPointer_default TaggedPointer_default
                    (Tuple3 0 0 0) (Tuple3 0 0 0) 0 0 0 0)
      in if flipNormal
         then si\<lparr>Interaction.n' := Tuple3_times (Interaction.n' si) (- 1),
                 shading := (shading si)\<lparr>Shading.n' := Tuple3_times (Shading.n' (shading si)) (- 1)\<rparr>\<rparr>
         else si)"

text \<open>The constructor with a \<open>faceIndex\<close> delegates to the one above and sets the member.\<close>

definition SurfaceInteraction_ctor_faceIndex ::
  "(Vector3f \<Rightarrow> Vector3f) \<Rightarrow> (Vector3f \<Rightarrow> Vector3f \<Rightarrow> Vector3f) \<Rightarrow> Point3fi \<Rightarrow> Point2f
     \<Rightarrow> Vector3f \<Rightarrow> Vector3f \<Rightarrow> Vector3f \<Rightarrow> Normal3f \<Rightarrow> Normal3f \<Rightarrow> Float \<Rightarrow> bool
     \<Rightarrow> 32 word \<Rightarrow> SurfaceInteraction" where
  "SurfaceInteraction_ctor_faceIndex Normalize Cross p_i uv0 wo0 dpdu0 dpdv0 dndu0 dndv0 time0
       flipNormal faceIndex0 =
     (SurfaceInteraction_ctor Normalize Cross p_i uv0 wo0 dpdu0 dpdv0 dndu0 dndv0 time0 flipNormal)
       \<lparr>faceIndex := faceIndex0\<rparr>"

text \<open>
  Two functions to run the constructor with. \<open>Cross_exact\<close> is the cross product.
  \<open>Normalize_overflow fmax\<close> is \<open>v / Length(v)\<close>, with
  \<open>Length(v) = sqrt(LengthSquared(v))\<close>, as arithmetic with largest finite value
  \<open>fmax\<close> computes it on a vector of finite components: when the sum of the squares
  exceeds \<open>fmax\<close> the length is infinite and every component divided by it is 0.
  Rounding is left out, and so is the zero vector, where the quotient is not a number.
\<close>

fun Cross_exact :: "Vector3f \<Rightarrow> Vector3f \<Rightarrow> Vector3f" where
  "Cross_exact (Tuple3 v1x v1y v1z) (Tuple3 v2x v2y v2z) =
     Tuple3 (v1y * v2z - v1z * v2y) (v1z * v2x - v1x * v2z) (v1x * v2y - v1y * v2x)"

definition Normalize_overflow :: "Float \<Rightarrow> Vector3f \<Rightarrow> Vector3f" where
  "Normalize_overflow fmax v =
     (if LengthSquared v > fmax then Tuple3 0 0 0
      else Tuple3_times v (1 / sqrt (LengthSquared v)))"

text \<open>The largest finite value of single and of double precision.\<close>

definition single_max :: Float where
  "single_max = 2 ^ 128 - 2 ^ 104"

definition double_max :: Float where
  "double_max = 2 ^ 1024 - 2 ^ 971"

section \<open>The integrators: cpu/integrators.h\<close>

datatype LightType = DeltaPosition | DeltaDirection | Area | Infinite

text \<open>
  \<open>Primitive\<close>, \<open>Light\<close>, \<open>Camera\<close> and \<open>Sampler\<close> are handles, so copying one shares
  the object it points to. The objects live in a heap \<open>'h\<close>. What the constructors call
  on them is declared in base/light.h, cpu/primitive.h and base/film.h and defined
  elsewhere, so these operations are parameters: \<open>aggregate.Bounds()\<close>, the default
  \<open>Bounds3f()\<close>, \<open>light.Preprocess(sceneBounds)\<close>, which may change the light it is
  called on, \<open>light.Type()\<close>, and \<open>film.PixelBounds().Area()\<close>, an \<open>int\<close>, which like
  every call on a handle may fail a check. \<open>CameraBase_film k p\<close> reads the member
  \<open>film\<close> of the camera object of the type at position \<open>k\<close> of the pack of \<open>Camera\<close>
  at address \<open>p\<close>.
\<close>

record ('b, 'h) collaborators =
  Primitive_Bounds :: "TaggedPointer \<Rightarrow> 'h \<Rightarrow> 'b"
  Bounds3f_default :: "'b"
  Light_Preprocess :: "'b \<Rightarrow> TaggedPointer \<Rightarrow> 'h \<Rightarrow> 'h"
  Light_Type :: "TaggedPointer \<Rightarrow> 'h \<Rightarrow> LightType"
  CameraBase_film :: "nat \<Rightarrow> 64 word \<Rightarrow> 'h \<Rightarrow> TaggedPointer"
  PixelBounds_Area :: "TaggedPointer \<Rightarrow> 'h \<Rightarrow> error + 32 word"

text \<open>
  \<open>Camera::GetFilm()\<close> of cameras.h: \<open>Dispatch\<close> with the visitor
  \<open>ptr->GetFilm()\<close> over the four types of the pack of \<open>Camera\<close>
  (\<open>PerspectiveCamera\<close>, \<open>OrthographicCamera\<close>, \<open>SphericalCamera\<close>,
  \<open>RealisticCamera\<close>), each of which inherits \<open>CameraBase::GetFilm\<close>, which returns
  the member \<open>film\<close>.
\<close>

definition Camera_GetFilm :: "('b, 'h) collaborators \<Rightarrow> TaggedPointer \<Rightarrow> 'h \<Rightarrow> error + TaggedPointer" where
  "Camera_GetFilm c cam h = Dispatch 4 (\<lambda>k p. CameraBase_film c k p h) cam"

record Integrator =
  aggregate :: TaggedPointer
  lights :: "TaggedPointer list"
  infiniteLights :: "TaggedPointer list"

text \<open>
  The loop \<open>for (auto &light : lights)\<close> of the \<open>Integrator\<close> constructor, over the
  lights still to visit; \<open>infl\<close> is the member \<open>infiniteLights\<close> built so far. The
  call of \<open>LOG_VERBOSE\<close> before the loop only writes to the log and is left out.
\<close>

fun Integrator_loop ::
  "('b, 'h) collaborators \<Rightarrow> 'b \<Rightarrow> TaggedPointer list \<Rightarrow> TaggedPointer list \<times> 'h
     \<Rightarrow> TaggedPointer list \<times> 'h" where
  "Integrator_loop c sceneBounds [] (infl, h) = (infl, h)"
| "Integrator_loop c sceneBounds (light # rest) (infl, h) =
     (let h' = Light_Preprocess c sceneBounds light h
      in if Light_Type c light h' = Infinite
         then Integrator_loop c sceneBounds rest (infl @ [light], h')
         else Integrator_loop c sceneBounds rest (infl, h'))"

definition Integrator_ctor ::
  "('b, 'h) collaborators \<Rightarrow> TaggedPointer \<Rightarrow> TaggedPointer list \<Rightarrow> 'h \<Rightarrow> Integrator \<times> 'h" where
  "Integrator_ctor c agg ls h =
     (let sceneBounds = (if operator_bool agg then Primitive_Bounds c agg h else Bounds3f_default c);
          (infl, h') = Integrator_loop c sceneBounds ls ([], h)
      in (\<lparr>aggregate = agg, lights = ls, infiniteLights = infl\<rparr>, h'))"

text \<open>
  For stating what the loop has done: the heaps in which the loop reads \<open>light.Type()\<close>,
  one for each light of the list, each the heap right after \<open>Preprocess\<close> has been
  called on that light.
\<close>

fun Preprocess_heaps :: "('b, 'h) collaborators \<Rightarrow> 'b \<Rightarrow> TaggedPointer list \<Rightarrow> 'h \<Rightarrow> 'h list" where
  "Preprocess_heaps c sceneBounds [] h = []"
| "Preprocess_heaps c sceneBounds (light # rest) h =
     Light_Preprocess c sceneBounds light h
       # Preprocess_heaps c sceneBounds rest (Light_Preprocess c sceneBounds light h)"

record ImageTileIntegrator = Integrator +
  camera :: TaggedPointer
  samplerPrototype :: TaggedPointer

record RandomWalkIntegrator = ImageTileIntegrator +
  maxDepth :: "32 word"

text \<open>
  \<open>RandomWalkIntegrator(int maxDepth, Camera camera, Sampler sampler, Primitive aggregate,
  std::vector<Light> lights)\<close>, through the constructors of \<open>RayIntegrator\<close>,
  \<open>ImageTileIntegrator\<close> and \<open>Integrator\<close>.
\<close>

definition RandomWalkIntegrator_ctor ::
  "('b, 'h) collaborators \<Rightarrow> 32 word \<Rightarrow> TaggedPointer \<Rightarrow> TaggedPointer \<Rightarrow> TaggedPointer
     \<Rightarrow> TaggedPointer list \<Rightarrow> 'h \<Rightarrow> RandomWalkIntegrator \<times> 'h" where
  "RandomWalkIntegrator_ctor c maxDepth0 camera0 sampler agg ls h =
     (let (base, h') = Integrator_ctor c agg ls h
      in (\<lparr>aggregate = aggregate base, lights = lights base,
           infiniteLights = infiniteLights base, camera = camera0,
           samplerPrototype = sampler, maxDepth = maxDepth0\<rparr>, h'))"

text \<open>
  What \<open>LiRandomWalk\<close> calls and does not define. \<open>'ray\<close> is \<open>RayDifferential\<close>,
  \<open>'si\<close> the \<open>SurfaceInteraction\<close> of a \<open>ShapeIntersection\<close>, \<open>'bsdf\<close> is \<open>BSDF\<close>,
  \<open>'s\<close> is \<open>SampledSpectrum\<close> with its \<open>+\<close> and \<open>*\<close>. The state \<open>'st\<close> holds what
  the function receives by reference or through a handle and passes on: the sampled
  wavelengths \<open>lambda\<close>, the sampler and the scratch buffer.
  \<^item> \<open>Intersect\<close>: \<open>Integrator::Intersect(ray)\<close>, with \<open>None\<close> for no hit;
  \<^item> \<open>Light_Le\<close>: \<open>light.Le(ray, lambda)\<close>;
  \<^item> \<open>ray_d\<close>, \<open>neg\<close>: the member \<open>ray.d\<close> and the unary minus of a vector;
  \<^item> \<open>isect_Le\<close>: \<open>isect.Le(wo, lambda)\<close>;
  \<^item> \<open>GetBSDF\<close>: \<open>isect.GetBSDF(ray, lambda, camera, scratchBuffer, sampler)\<close>, a
    non-const member that returns the BSDF and may change the interaction and the state;
  \<^item> \<open>BSDF_bool\<close>, \<open>SampledSpectrum_bool\<close>: the two \<open>operator bool\<close>;
  \<^item> \<open>Get2D\<close>: \<open>sampler.Get2D()\<close>; \<open>SampleUniformSphere\<close>; \<open>BSDF_f\<close>: \<open>bsdf.f(wo, wp)\<close>;
  \<^item> \<open>AbsDot\<close>; \<open>shading_n\<close>: the member \<open>isect.shading.n\<close>;
  \<^item> \<open>scale\<close>, \<open>divide_Float\<close>: a spectrum times and divided by a \<open>Float\<close>;
  \<^item> \<open>SpawnRay\<close>: \<open>isect.SpawnRay(wp)\<close>; \<open>Pi\<close>: the constant of util/math.h.
\<close>

record ('ray, 'si, 'bsdf, 'st, 's) scene =
  Intersect :: "'ray \<Rightarrow> 'si option"
  Light_Le :: "TaggedPointer \<Rightarrow> 'ray \<Rightarrow> 'st \<Rightarrow> 's"
  ray_d :: "'ray \<Rightarrow> Vector3f"
  neg :: "Vector3f \<Rightarrow> Vector3f"
  isect_Le :: "'si \<Rightarrow> Vector3f \<Rightarrow> 'st \<Rightarrow> 's"
  GetBSDF :: "'si \<Rightarrow> 'ray \<Rightarrow> TaggedPointer \<Rightarrow> 'st \<Rightarrow> 'bsdf \<times> 'si \<times> 'st"
  BSDF_bool :: "'bsdf \<Rightarrow> bool"
  Get2D :: "'st \<Rightarrow> Point2f \<times> 'st"
  SampleUniformSphere :: "Point2f \<Rightarrow> Vector3f"
  BSDF_f :: "'bsdf \<Rightarrow> Vector3f \<Rightarrow> Vector3f \<Rightarrow> 's"
  AbsDot :: "Vector3f \<Rightarrow> Normal3f \<Rightarrow> Float"
  shading_n :: "'si \<Rightarrow> Normal3f"
  scale :: "'s \<Rightarrow> Float \<Rightarrow> 's"
  SampledSpectrum_bool :: "'s \<Rightarrow> bool"
  SpawnRay :: "'si \<Rightarrow> Vector3f \<Rightarrow> 'ray"
  divide_Float :: "'s \<Rightarrow> Float \<Rightarrow> 's"
  Pi :: Float

text \<open>
  \<open>LiRandomWalk(ray, lambda, sampler, scratchBuffer, depth)\<close>. \<open>depth\<close> and
  \<open>maxDepth\<close> are \<open>int\<close>, modelled as 32-bit words; the code compares them for
  equality and adds one. Where \<open>depth + 1\<close> overflows, which C++ leaves undefined, the
  word wraps around; this needs more than \<open>2 ^ 31\<close> nested calls and cannot happen when
  the walk starts at depth 0 with \<open>maxDepth \<ge> 0\<close>. The result is the returned radiance,
  the state after the call, and the \<open>depth\<close> argument of every activation of the
  function that the call started, its own first.
\<close>

function LiRandomWalk ::
  "('ray, 'si, 'bsdf, 'st, 's :: {zero, plus, times}) scene \<Rightarrow> RandomWalkIntegrator \<Rightarrow> 'ray \<Rightarrow> 'st
     \<Rightarrow> 32 word \<Rightarrow> 's \<times> 'st \<times> 32 word list" where
  "LiRandomWalk sc this ray st depth =
     (case Intersect sc ray of
        None \<Rightarrow>
          (foldl (\<lambda>Le light. Le + Light_Le sc light ray st) 0 (infiniteLights this), st, [depth])
      | Some isect \<Rightarrow>
          (let wo = neg sc (ray_d sc ray);
               Le = isect_Le sc isect wo st
           in if depth = maxDepth this then (Le, st, [depth])
              else
                (let (bsdf, isect1, st1) = GetBSDF sc isect ray (camera this) st
                 in if \<not> BSDF_bool sc bsdf then (Le, st1, [depth])
                    else
                      (let (u, st2) = Get2D sc st1;
                           wp = SampleUniformSphere sc u;
                           fcos = scale sc (BSDF_f sc bsdf wo wp)
                                    (AbsDot sc wp (shading_n sc isect1))
                       in if \<not> SampledSpectrum_bool sc fcos then (Le, st2, [depth])
                          else
                            (let ray1 = SpawnRay sc isect1 wp;
                                 (Li, st3, ds) = LiRandomWalk sc this ray1 st2 (depth + 1)
                             in (Le + divide_Float sc (fcos * Li) (1 / (4 * Pi sc)), st3,
                                 depth # ds))))))"
  by pat_completeness auto
termination
proof (relation "measure (\<lambda>(sc, this, ray, st, depth). unat (maxDepth this - depth))")
  show "wf (measure (\<lambda>(sc, this, ray, st, depth). unat (maxDepth this - depth)))" by simp
next
  fix sc :: "('ray, 'si, 'bsdf, 'st, 's) scene" and this :: RandomWalkIntegrator
    and depth :: "32 word" and ray ray1 :: 'ray and st st2 :: 'st
  assume ne: "depth \<noteq> maxDepth this"
  define x where "x = maxDepth this - depth"
  have nz: "x \<noteq> 0" using ne by (simp add: x_def)
  have step: "maxDepth this - (depth + 1) = x - 1" by (simp add: x_def)
  have "unat (x - 1) = unat x - 1" using nz by (rule unat_minus_one)
  moreover have "0 < unat x" using nz by (simp add: unat_gt_0)
  ultimately have "unat (x - 1) < unat x" by simp
  then have "unat (maxDepth this - (depth + 1)) < unat (maxDepth this - depth)"
    by (simp only: step) (simp only: x_def)
  then show "((sc, this, ray1, st2, depth + 1), sc, this, ray, st, depth)
      \<in> measure (\<lambda>(sc, this, ray, st, depth). unat (maxDepth this - depth))"
    by simp
qed

text \<open>\<open>RandomWalkIntegrator::Li\<close>: \<open>return LiRandomWalk(ray, lambda, sampler, scratchBuffer, 0)\<close>.\<close>

definition Li ::
  "('ray, 'si, 'bsdf, 'st, 's :: {zero, plus, times}) scene \<Rightarrow> RandomWalkIntegrator \<Rightarrow> 'ray \<Rightarrow> 'st
     \<Rightarrow> 's \<times> 'st \<times> 32 word list" where
  "Li sc this ray st = LiRandomWalk sc this ray st 0"

text \<open>
  A small scene to run the random walk on. Ray 2 leaves the scene; every other ray
  \<open>r\<close> hits interaction \<open>r\<close>, whose BSDF is empty for \<open>r = 7\<close> and evaluates to zero
  for \<open>r = 8\<close>; the ray spawned at interaction \<open>r\<close> is \<open>r + 1\<close>. Every surface emits
  1, the light at address 16 emits 2 and every other light 3. The state counts the calls
  of \<open>Get2D\<close>.
\<close>

definition example_scene :: "(nat, nat, nat, nat, real) scene" where
  "example_scene =
     \<lparr>Intersect = (\<lambda>ray. if ray = 2 then None else Some ray),
      Light_Le = (\<lambda>light ray st. if bits light = 16 then 2 else 3),
      ray_d = (\<lambda>ray. Tuple3 0 0 1),
      neg = (\<lambda>v. case v of Tuple3 a b c \<Rightarrow> Tuple3 (- a) (- b) (- c)),
      isect_Le = (\<lambda>isect w st. 1),
      GetBSDF = (\<lambda>isect ray cam st. (isect, isect, st)),
      BSDF_bool = (\<lambda>bsdf. bsdf \<noteq> 7),
      Get2D = (\<lambda>st. ((1 / 2, 1 / 2), st + 1)),
      SampleUniformSphere = (\<lambda>u. Tuple3 0 1 0),
      BSDF_f = (\<lambda>bsdf w w'. if bsdf = 8 then 0 else 1 / 2),
      AbsDot = (\<lambda>w nn. 1),
      shading_n = (\<lambda>isect. Tuple3 0 1 0),
      scale = (\<lambda>s a. s * a),
      SampledSpectrum_bool = (\<lambda>s. s \<noteq> 0),
      SpawnRay = (\<lambda>isect w. isect + 1),
      divide_Float = (\<lambda>s a. s / a),
      Pi = 355 / 113\<rparr>"

definition example_integrator :: RandomWalkIntegrator where
  "example_integrator =
     \<lparr>aggregate = \<lparr>bits = 64\<rparr>, lights = [\<lparr>bits = 16\<rparr>, \<lparr>bits = 32\<rparr>, \<lparr>bits = 48\<rparr>],
      infiniteLights = [\<lparr>bits = 16\<rparr>, \<lparr>bits = 48\<rparr>],
      camera = \<lparr>bits = 128\<rparr>, samplerPrototype = \<lparr>bits = 256\<rparr>, maxDepth = 5\<rparr>"

text \<open>
  A spectrum of one sample that is a \<open>Float\<close> or a non-finite value (an infinity or a
  NaN), to run the walk on radiance that is not finite. A sum or product with a
  non-finite operand is non-finite.
\<close>

datatype radiance = Radiance Float | NonFinite

instantiation radiance :: "{zero, plus, times}"
begin

definition zero_radiance :: radiance where
  "zero_radiance = Radiance 0"

fun plus_radiance :: "radiance \<Rightarrow> radiance \<Rightarrow> radiance" where
  "plus_radiance (Radiance a) (Radiance b) = Radiance (a + b)"
| "plus_radiance a b = NonFinite"

fun times_radiance :: "radiance \<Rightarrow> radiance \<Rightarrow> radiance" where
  "times_radiance (Radiance a) (Radiance b) = Radiance (a * b)"
| "times_radiance a b = NonFinite"

instance ..

end

fun radiance_finite :: "radiance \<Rightarrow> bool" where
  "radiance_finite (Radiance a) = True"
| "radiance_finite NonFinite = False"

text \<open>
  A scene in which every ray hits a surface that has no BSDF and whose emitted radiance
  is not finite.
\<close>

definition glowing_scene :: "(nat, nat, nat, nat, radiance) scene" where
  "glowing_scene =
     \<lparr>Intersect = (\<lambda>ray. Some ray),
      Light_Le = (\<lambda>light ray st. Radiance 1),
      ray_d = (\<lambda>ray. Tuple3 0 0 1),
      neg = (\<lambda>v. Tuple3_times v (- 1)),
      isect_Le = (\<lambda>isect w st. NonFinite),
      GetBSDF = (\<lambda>isect ray cam st. (isect, isect, st)),
      BSDF_bool = (\<lambda>bsdf. False),
      Get2D = (\<lambda>st. ((1 / 2, 1 / 2), st + 1)),
      SampleUniformSphere = (\<lambda>u. Tuple3 0 1 0),
      BSDF_f = (\<lambda>bsdf w w'. Radiance 0),
      AbsDot = (\<lambda>w nn. 1),
      shading_n = (\<lambda>isect. Tuple3 0 1 0),
      scale = (\<lambda>s a. s * Radiance a),
      SampledSpectrum_bool = (\<lambda>s. s \<noteq> Radiance 0),
      SpawnRay = (\<lambda>isect w. isect + 1),
      divide_Float = (\<lambda>s a. s * Radiance (1 / a)),
      Pi = 355 / 113\<rparr>"

record SPPMIntegrator = Integrator +
  camera :: TaggedPointer
  initialSearchRadius :: Float
  samplerPrototype :: TaggedPointer
  digitPermutationsSeed :: "32 word"
  maxDepth :: "32 word"
  photonsPerIteration :: "32 word"
  colorSpace :: "64 word"

text \<open>
  The \<open>SPPMIntegrator\<close> constructor: the base-class constructor, then the members.
  \<open>photonsPerIteration > 0\<close> compares the \<open>int\<close> parameter as a signed number, and
  only when it is false does the conditional expression evaluate
  \<open>camera.GetFilm().PixelBounds().Area()\<close>; a check that fails there ends the
  construction.
\<close>

definition SPPMIntegrator_ctor ::
  "('b, 'h) collaborators \<Rightarrow> TaggedPointer \<Rightarrow> TaggedPointer \<Rightarrow> TaggedPointer \<Rightarrow> TaggedPointer list
     \<Rightarrow> 32 word \<Rightarrow> 32 word \<Rightarrow> Float \<Rightarrow> 32 word \<Rightarrow> 64 word \<Rightarrow> 'h
     \<Rightarrow> error + SPPMIntegrator \<times> 'h" where
  "SPPMIntegrator_ctor c camera0 sampler agg ls photonsPerIteration0 maxDepth0
       initialSearchRadius0 seed colorSpace0 h =
     (let (base, h') = Integrator_ctor c agg ls h
      in case (if sint photonsPerIteration0 > 0 then Inr photonsPerIteration0
               else case Camera_GetFilm c camera0 h' of
                      Inl e \<Rightarrow> Inl e
                    | Inr film \<Rightarrow> PixelBounds_Area c film h') of
           Inl e \<Rightarrow> Inl e
         | Inr photons \<Rightarrow>
             Inr (\<lparr>aggregate = aggregate base, lights = lights base,
                   infiniteLights = infiniteLights base, camera = camera0,
                   initialSearchRadius = initialSearchRadius0, samplerPrototype = sampler,
                   digitPermutationsSeed = seed, maxDepth = maxDepth0,
                   photonsPerIteration = photons, colorSpace = colorSpace0\<rparr>, h'))"

text \<open>
  Collaborators to run the constructors on: the heap is the log of the calls of
  \<open>Preprocess\<close>, each with the address of its light and the bounds it received; the
  bounds of every aggregate are 7 and the default bounds are 0; the light at address 32
  is an area light and every other light is infinite; every camera has the film at
  address 8192, an \<open>RGBFilm\<close>, and a film has 1200 pixels.
\<close>

definition example_world :: "(nat, (64 word \<times> nat) list) collaborators" where
  "example_world =
     \<lparr>Primitive_Bounds = (\<lambda>agg h. 7), Bounds3f_default = 0,
      Light_Preprocess = (\<lambda>b light h. h @ [(bits light, b)]),
      Light_Type = (\<lambda>light h. if bits light = 32 then Area else Infinite),
      CameraBase_film = (\<lambda>k p h. \<lparr>bits = 0x0200000000002000\<rparr>),
      PixelBounds_Area = (\<lambda>film h. Inr 1200)\<rparr>"

section \<open>Properties of the handle\<close>

declare detail_Dispatch.simps [simp del] detail_DispatchCPU.simps [simp del]
declare LiRandomWalk.simps [simp del]

subsection \<open>Masks, tag and address\<close>

lemma ptrMask_mask: "ptrMask = mask 57"
  by (simp add: ptrMask_def tagMask_def tagShift_def tagBits_def mask_eq_exp_minus_1)

lemma tagMask_not: "tagMask = NOT (mask 57)"
proof -
  have "NOT ptrMask = tagMask" by (simp add: ptrMask_def)
  then show ?thesis by (simp add: ptrMask_mask)
qed

lemma fits_bit:
  fixes p :: "64 word"
  assumes "p AND ptrMask = p" and "bit p m"
  shows "m < 57"
proof -
  have "bit (p AND mask 57) m" using assms by (simp add: ptrMask_mask)
  then show ?thesis by (simp add: bit_simps)
qed

lemma small_tag_bit:
  fixes t :: "32 word"
  assumes "t < 128" and "bit t m"
  shows "m < 7"
proof -
  have "t < 2 ^ 7" using assms(1) by simp
  then have "t AND mask 7 = t" by (rule less_mask_eq)
  then have "bit (t AND mask 7) m" using assms(2) by simp
  then show ?thesis by (simp add: bit_simps)
qed

lemma Tag_make:
  fixes p :: "64 word" and t :: "32 word"
  assumes "p AND ptrMask = p" and "t < 128"
  shows "Tag \<lparr>bits = p OR push_bit tagShift (ucast t :: 64 word)\<rparr> = t"
proof (rule bit_word_eqI)
  fix m assume "m < LENGTH(32)"
  have a: "\<not> bit p (m + 57)" using fits_bit [OF assms(1), of "m + 57"] by auto
  have b: "bit t m \<Longrightarrow> m < 7" using small_tag_bit [OF assms(2), of m] by simp
  show "bit (Tag \<lparr>bits = p OR push_bit tagShift (ucast t :: 64 word)\<rparr>) m = bit t m"
    using a b by (auto simp add: Tag_def tagMask_not tagShift_def bit_simps add.commute)
qed

lemma ptr_make:
  fixes p :: "64 word" and t :: "32 word"
  assumes "p AND ptrMask = p"
  shows "ptr \<lparr>bits = p OR push_bit tagShift (ucast t :: 64 word)\<rparr> = p"
proof (rule bit_word_eqI)
  fix m assume "m < LENGTH(64)"
  have a: "bit p m \<Longrightarrow> m < 57" using fits_bit [OF assms(1), of m] by simp
  show "bit (ptr \<lparr>bits = p OR push_bit tagShift (ucast t :: 64 word)\<rparr>) m = bit p m"
    using a by (auto simp add: ptr_def ptrMask_mask tagShift_def bit_simps)
qed


lemma TaggedPointer_ptr_Inr:
  assumes "TaggedPointer_ptr k iptr = Inr h"
  shows "iptr AND ptrMask = iptr"
    and "h = \<lparr>bits = iptr OR push_bit tagShift (ucast (TypeIndex (Some k)) :: 64 word)\<rparr>"
  using assms by (auto simp add: TaggedPointer_ptr_def split: if_splits)

subsection \<open>The switch over the tag\<close>

lemma detail_Dispatch_routes:
  "k < n \<Longrightarrow> detail_Dispatch n off func p (int k) = Inr (func (off + k) p)"
proof (induction n off func p "int k" arbitrary: k rule: detail_Dispatch.induct)
  case (1 n off func p)
  show ?case
  proof (cases "n \<le> 8")
    case True
    from True "1.prems" have "\<not> int k < int n - 1 \<Longrightarrow> k = n - 1" by linarith
    with True "1.prems" show ?thesis
      by (subst detail_Dispatch.simps) auto
  next
    case False
    show ?thesis
    proof (cases "k < 8")
      case True
      with False show ?thesis by (subst detail_Dispatch.simps) simp
    next
      case k8: False
      then obtain j where j: "k = j + 8" by (metis add.commute le_Suc_ex not_less)
      have rec: "detail_Dispatch (n - 8) (off + 8) func p (int j) = Inr (func (off + 8 + j) p)"
        using "1.hyps" [of j] False k8 j "1.prems" by auto
      have "detail_Dispatch n off func p (int k) =
            detail_Dispatch (n - 8) (off + 8) func p (int k - 8)"
        using False k8 by (subst detail_Dispatch.simps) simp
      also have "int k - 8 = int j" using j by simp
      finally show ?thesis using rec j by (simp add: ac_simps)
    qed
  qed
qed


lemma unat_of_nat_small:
  assumes "m \<le> 127"
  shows "unat (of_nat m :: 32 word) = m"
proof -
  have "m < 2 ^ LENGTH(32)" using assms by simp
  then show ?thesis by (rule of_nat_inverse [OF refl])
qed

lemma sint_of_nat_small:
  assumes "m \<le> 127"
  shows "sint (of_nat m :: 32 word) = int m"
proof -
  have "- (2 ^ 31) \<le> int m" by (rule order_trans [of _ 0]) simp_all
  moreover have "int m < 2 ^ 31" using assms by simp
  ultimately have "signed_take_bit 31 (int m) = int m"
    by (rule signed_take_bit_int_eq_self)
  then show ?thesis by (simp add: signed_of_nat)
qed

lemma TypeIndex_unat:
  assumes "k < n" and "n \<le> 127"
  shows "unat (TypeIndex (Some k)) = k + 1"
proof -
  have "TypeIndex (Some k) = of_nat (k + 1)" by simp
  moreover have "k + 1 \<le> 127" using assms by simp
  ultimately show ?thesis by (simp only: unat_of_nat_small)
qed

lemma TypeIndex_small:
  assumes "k < n" and "n \<le> 127"
  shows "TypeIndex (Some k) < 128"
proof -
  have "unat (TypeIndex (Some k)) < unat (128 :: 32 word)"
    using TypeIndex_unat [OF assms] assms by simp
  then show ?thesis by (simp only: word_less_nat_alt)
qed


lemma tag_index:
  assumes "k < n" and "n \<le> 127"
  shows "sint (TypeIndex (Some k) - 1) = int k"
proof -
  have "TypeIndex (Some k) - 1 = (of_nat k :: 32 word)" by simp
  moreover have "k \<le> 127" using assms by simp
  ultimately show ?thesis by (simp only: sint_of_nat_small)
qed

subsection \<open>Construction, test, cast and dispatch\<close>




subsection \<open>The range of the tag\<close>

lemma Tag_zero_bits: "Tag \<lparr>bits = 0\<rparr> = 0"
  by (simp add: Tag_def)

lemma Tag_copy: "Tag (TaggedPointer_copy t) = Tag t"
  by (simp add: Tag_def TaggedPointer_copy_def)

lemma Tag_make_any:
  fixes p :: "64 word" and t :: "32 word"
  assumes "p AND ptrMask = p"
  shows "Tag \<lparr>bits = p OR push_bit tagShift (ucast t :: 64 word)\<rparr> = take_bit 7 t"
proof (rule bit_word_eqI)
  fix m assume "m < LENGTH(32)"
  have a: "\<not> bit p (m + 57)" using fits_bit [OF assms, of "m + 57"] by auto
  show "bit (Tag \<lparr>bits = p OR push_bit tagShift (ucast t :: 64 word)\<rparr>) m = bit (take_bit 7 t) m"
    using a by (auto simp add: Tag_def tagMask_not tagShift_def bit_simps add.commute)
qed

lemma unat_take_bit_TypeIndex: "unat (take_bit 7 (TypeIndex (Some k))) = (k + 1) mod 128"
proof -
  have ti: "TypeIndex (Some k) = of_nat (k + 1)" by simp
  have "unat (take_bit 7 (of_nat (k + 1) :: 32 word)) = take_bit 7 (unat (of_nat (k + 1) :: 32 word))"
    by (rule unsigned_take_bit_eq)
  also have "\<dots> = unat (of_nat (k + 1) :: 32 word) mod 2 ^ 7" by (rule take_bit_eq_mod)
  also have "unat (of_nat (k + 1) :: 32 word) = (k + 1) mod 2 ^ LENGTH(32)" by (rule unat_of_nat)
  also have "(k + 1) mod 2 ^ LENGTH(32) mod 2 ^ 7 = (k + 1) mod 2 ^ 7"
    by (rule mod_mod_cancel) (simp add: le_imp_power_dvd)
  finally show ?thesis by (simp only: ti) simp
qed

lemma Tag_from_ptr_mod:
  assumes "TaggedPointer_ptr k iptr = Inr h"
  shows "unat (Tag h) = (k + 1) mod 128"
proof -
  note r = TaggedPointer_ptr_Inr [OF assms]
  have "Tag h = take_bit 7 (TypeIndex (Some k))"
    unfolding r(2) using r(1) by (rule Tag_make_any)
  then show ?thesis by (simp only: unat_take_bit_TypeIndex)
qed

lemma constructed_Tag_le_any:
  assumes "constructed n h"
  shows "unat (Tag h) \<le> n"
  using assms
proof (induction rule: constructed.induct)
  case from_default
  show ?case by (simp add: TaggedPointer_default_def Tag_zero_bits)
next
  case from_nullptr
  show ?case by (simp add: TaggedPointer_nullptr_def Tag_zero_bits)
next
  case (from_copy t)
  then show ?case by (simp add: Tag_copy)
next
  case (from_ptr k iptr h)
  have "unat (Tag h) = (k + 1) mod 128" using from_ptr.hyps(2) by (rule Tag_from_ptr_mod)
  moreover have "(k + 1) mod 128 \<le> k + 1" by (rule mod_less_eq_dividend)
  ultimately show ?case using from_ptr.hyps(1) by simp
qed

lemma MaxTag_unat_any:
  assumes "n < 2 ^ 32"
  shows "unat (MaxTag n) = n"
proof -
  have "n < 2 ^ LENGTH(32)" using assms by simp
  then show ?thesis unfolding MaxTag_def by (rule of_nat_inverse [OF refl])
qed

text \<open>
  Claim C2, amended where the width of the tag field forces it. Every handle that a
  public constructor produces for a pack of \<open>n\<close> types has its tag between 0 and \<open>n\<close>,
  and \<open>n\<close> is \<open>MaxTag()\<close>, an \<open>unsigned int\<close>, for \<open>n\<close> below \<open>2 ^ 32\<close>; the
  default-constructed handle and the one built from \<open>nullptr\<close> have tag 0; a handle
  built from a pointer to the type at position \<open>k\<close> has tag \<open>(k + 1) mod 128\<close>, which is
  \<open>k + 1\<close> for the first 127 types of a pack.
\<close>

theorem TaggedPointer_tag_range:
  "(constructed n h \<longrightarrow> unat (Tag h) \<le> n)
     \<and> (n < 2 ^ 32 \<longrightarrow> unat (MaxTag n) = n \<and> (constructed n h \<longrightarrow> Tag h \<le> MaxTag n))
     \<and> Tag TaggedPointer_default = 0
     \<and> Tag TaggedPointer_nullptr = 0
     \<and> (TaggedPointer_ptr k iptr = Inr h' \<longrightarrow> unat (Tag h') = (k + 1) mod 128)
     \<and> (k < 127 \<and> TaggedPointer_ptr k iptr = Inr h' \<longrightarrow> unat (Tag h') = k + 1)"
proof -
  have a: "unat (Tag h) \<le> n" if "constructed n h" using that by (rule constructed_Tag_le_any)
  have m: "unat (MaxTag n) = n" if "n < 2 ^ 32" using that by (rule MaxTag_unat_any)
  have c: "Tag h \<le> MaxTag n" if "n < 2 ^ 32" and "constructed n h"
    using a [OF that(2)] m [OF that(1)] by (simp only: word_le_nat_alt)
  have d: "Tag TaggedPointer_default = 0" by (simp add: TaggedPointer_default_def Tag_zero_bits)
  have e: "Tag TaggedPointer_nullptr = 0" by (simp add: TaggedPointer_nullptr_def Tag_zero_bits)
  have f: "unat (Tag h') = (k + 1) mod 128" if "TaggedPointer_ptr k iptr = Inr h'"
    using that by (rule Tag_from_ptr_mod)
  have g: "unat (Tag h') = k + 1" if "k < 127" and "TaggedPointer_ptr k iptr = Inr h'"
    using f [OF that(2)] that(1) by simp
  from a m c d e f g show ?thesis by blast
qed

theorem TaggedPointer_tag_range_witness:
  "constructed 9 (TaggedPointer_copy \<lparr>bits = 0x1000000000001000\<rparr>)
     \<and> unat (Tag (TaggedPointer_copy \<lparr>bits = 0x1000000000001000\<rparr>)) \<le> 9
     \<and> unat (MaxTag 9) = 9
     \<and> Tag (TaggedPointer_copy \<lparr>bits = 0x1000000000001000\<rparr>) \<le> MaxTag 9
     \<and> TaggedPointer_ptr 7 4096 = Inr \<lparr>bits = 0x1000000000001000\<rparr>
     \<and> unat (Tag \<lparr>bits = 0x1000000000001000\<rparr>) = 7 + 1"
proof -
  have n: "(9::nat) < 2 ^ 32" and k: "(7::nat) < 9" and k': "(7::nat) < 127" by simp_all
  have mk: "TaggedPointer_ptr 7 4096 = Inr \<lparr>bits = 0x1000000000001000\<rparr>"
    by (simp add: TaggedPointer_ptr_def ptrMask_def tagMask_def tagShift_def tagBits_def)
  have c: "constructed 9 (TaggedPointer_copy \<lparr>bits = 0x1000000000001000\<rparr>)"
    by (rule from_copy, rule from_ptr [OF k mk])
  from TaggedPointer_tag_range [where n = 9 and h = "TaggedPointer_copy \<lparr>bits = 0x1000000000001000\<rparr>"
      and k = 7 and iptr = 4096 and h' = "\<lparr>bits = 0x1000000000001000\<rparr>"] n c k' mk
  show ?thesis by blast
qed

text \<open>
  The tag is not \<open>k + 1\<close> for every pack: for a pack of 128 types, the handle built
  from a pointer to the type at position 127 has tag 0, not 128.
\<close>

theorem TaggedPointer_tag_range_counterexample:
  "(127::nat) < 128 \<and> (8::64 word) AND ptrMask = 8
     \<and> TaggedPointer_ptr 127 8 = Inr \<lparr>bits = 8\<rparr>
     \<and> constructed 128 \<lparr>bits = 8\<rparr>
     \<and> unat (Tag \<lparr>bits = 8\<rparr>) = 0
     \<and> unat (Tag \<lparr>bits = 8\<rparr>) \<noteq> 127 + 1"
proof -
  have k: "(127::nat) < 128" by simp
  have p: "(8::64 word) AND ptrMask = 8"
    by (simp add: ptrMask_def tagMask_def tagShift_def tagBits_def)
  have mk: "TaggedPointer_ptr 127 8 = Inr \<lparr>bits = 8\<rparr>"
    by (simp add: TaggedPointer_ptr_def ptrMask_def tagMask_def tagShift_def tagBits_def)
  have c: "constructed 128 \<lparr>bits = 8\<rparr>" by (rule from_ptr [OF k mk])
  have t: "unat (Tag \<lparr>bits = 8\<rparr>) = 0"
    by (simp add: Tag_def tagMask_def tagShift_def tagBits_def)
  from k p mk c t show ?thesis by simp
qed

subsection \<open>The cast without a check\<close>

text \<open>
  Claim C9. For every handle and every type, \<open>CastOrNullptr\<close> returns the stored address
  when \<open>Is\<close> holds for the type and the null pointer otherwise; the handle has the same
  encoded bits after the call; where \<open>Is\<close> fails, \<open>Cast\<close> fails its check and
  \<open>CastOrNullptr\<close> does not, and where \<open>Is\<close> holds the two return the same address.
\<close>

theorem CastOrNullptr_total:
  "fst (CastOrNullptr h T) = (if Is h T then ptr h else 0)
     \<and> bits (snd (CastOrNullptr h T)) = bits h
     \<and> Cast h T = (if Is h T then Inr (fst (CastOrNullptr h T)) else Inl CheckFailed)"
  by (simp add: CastOrNullptr_def Cast_def)

theorem CastOrNullptr_total_witness:
  "CastOrNullptr \<lparr>bits = 0x1000000000001000\<rparr> (Some 7) = (4096, \<lparr>bits = 0x1000000000001000\<rparr>)
     \<and> CastOrNullptr \<lparr>bits = 0x1000000000001000\<rparr> (Some 2) = (0, \<lparr>bits = 0x1000000000001000\<rparr>)
     \<and> Cast \<lparr>bits = 0x1000000000001000\<rparr> (Some 2) = Inl CheckFailed"
proof -
  have a: "Is \<lparr>bits = 0x1000000000001000\<rparr> (Some 7)"
    by (simp add: Is_def Tag_def tagMask_def tagShift_def tagBits_def)
  have b: "\<not> Is \<lparr>bits = 0x1000000000001000\<rparr> (Some 2)"
    by (simp add: Is_def Tag_def tagMask_def tagShift_def tagBits_def)
  have c: "ptr \<lparr>bits = 0x1000000000001000\<rparr> = 4096"
    by (simp add: ptr_def ptrMask_def tagMask_def tagShift_def tagBits_def)
  from CastOrNullptr_total [of "\<lparr>bits = 0x1000000000001000\<rparr>" "Some 7"]
       CastOrNullptr_total [of "\<lparr>bits = 0x1000000000001000\<rparr>" "Some 2"] a b c
  show ?thesis by (simp add: prod_eq_iff)
qed

section \<open>Properties of the interaction records\<close>

text \<open>
  Claim C8 asks for a stored \<open>wo\<close> of unit length after every constructor that takes an
  outgoing direction. The constructor used for medium interactions stores its argument
  unchanged: given the direction \<open>(2, 0, 0)\<close>, of squared length 4, both it and the
  \<open>MediumInteraction\<close> constructor built on it store \<open>(2, 0, 0)\<close>, while the sibling
  constructor stores \<open>Normalize\<close> of its argument.
\<close>

theorem medium_ctor_keeps_wo:
  "wo (Interaction_p_wo_time_medium (Tuple3 0 0 0) (Tuple3 2 0 0) 0 TaggedPointer_nullptr) = Tuple3 2 0 0
   \<and> wo (MediumInteraction_ctor (Tuple3 0 0 0) (Tuple3 2 0 0) 0 TaggedPointer_nullptr TaggedPointer_nullptr)
       = Tuple3 2 0 0
   \<and> LengthSquared (Tuple3 2 0 0) = 4
   \<and> wo (Interaction_pi_n_uv_wo_time Normalize (Point3fi (0, 0) (0, 0) (0, 0)) (Tuple3 0 0 1) (0, 0)
            (Tuple3 2 0 0) 0) = Normalize (Tuple3 2 0 0)"
  by (simp add: Interaction_p_wo_time_medium_def MediumInteraction_ctor_def Interaction_default_def
        Interaction_pi_n_uv_wo_time_def Interaction.extend_def)

text \<open>A medium interaction built by its constructor has the zero normal, so it is classified as one.\<close>

lemma MediumInteraction_is_medium:
  "IsMediumInteraction (MediumInteraction_ctor p w t m ph)"
  by (simp add: IsMediumInteraction_def IsSurfaceInteraction_def MediumInteraction_ctor_def
        Interaction_p_wo_time_medium_def Interaction_default_def Interaction.extend_def)

lemma Tuple3_times_minus_zero: "(Tuple3_times v (- 1) = Tuple3 0 0 0) = (v = Tuple3 0 0 0)"
  by (cases v) simp

text \<open>
  Claim C4, amended in its middle part. For every interaction, \<open>IsSurfaceInteraction()\<close>
  is true exactly when the normal \<open>n\<close> differs from \<open>(0, 0, 0)\<close>, and
  \<open>IsMediumInteraction()\<close> is its negation. A \<open>SurfaceInteraction\<close> built by either
  public constructor is classified as a surface interaction exactly when
  \<open>Normalize(Cross(dpdu, dpdv))\<close> differs from \<open>(0, 0, 0)\<close>, whatever \<open>flipNormal\<close> is.
  A \<open>MediumInteraction\<close> built by either of its constructors is classified as a medium
  interaction.
\<close>

theorem Interaction_classification:
  "IsSurfaceInteraction i = (Interaction.n' i \<noteq> Tuple3 0 0 0)
     \<and> IsMediumInteraction i = (\<not> IsSurfaceInteraction i)
     \<and> IsSurfaceInteraction
           (SurfaceInteraction_ctor Normalize Cross pnt uvp wout du dv ndu ndv tm flipNormal)
         = (Normalize (Cross du dv) \<noteq> Tuple3 0 0 0)
     \<and> IsSurfaceInteraction
           (SurfaceInteraction_ctor_faceIndex Normalize Cross pnt uvp wout du dv ndu ndv tm
              flipNormal fi)
         = (Normalize (Cross du dv) \<noteq> Tuple3 0 0 0)
     \<and> IsMediumInteraction (MediumInteraction_ctor p w t m ph)
     \<and> IsMediumInteraction MediumInteraction_default"
proof -
  have a: "IsSurfaceInteraction i = (Interaction.n' i \<noteq> Tuple3 0 0 0)"
    by (simp add: IsSurfaceInteraction_def)
  have b: "IsMediumInteraction i = (\<not> IsSurfaceInteraction i)"
    by (simp add: IsMediumInteraction_def)
  have c: "IsSurfaceInteraction
           (SurfaceInteraction_ctor Normalize Cross pnt uvp wout du dv ndu ndv tm flipNormal)
         = (Normalize (Cross du dv) \<noteq> Tuple3 0 0 0)"
    by (simp add: IsSurfaceInteraction_def SurfaceInteraction_ctor_def Let_def
          Interaction_pi_n_uv_wo_time_def Interaction_default_def Interaction.extend_def
          Tuple3_times_minus_zero)
  have d: "IsSurfaceInteraction
           (SurfaceInteraction_ctor_faceIndex Normalize Cross pnt uvp wout du dv ndu ndv tm
              flipNormal fi)
         = (Normalize (Cross du dv) \<noteq> Tuple3 0 0 0)"
    using c by (simp add: IsSurfaceInteraction_def SurfaceInteraction_ctor_faceIndex_def)
  have e: "IsMediumInteraction (MediumInteraction_ctor p w t m ph)"
    by (rule MediumInteraction_is_medium)
  have f: "IsMediumInteraction MediumInteraction_default"
    by (simp add: IsMediumInteraction_def IsSurfaceInteraction_def MediumInteraction_default_def
          Interaction_default_def Interaction.extend_def)
  from a b c d e f show ?thesis by blast
qed

theorem Interaction_classification_witness:
  "IsSurfaceInteraction
     (SurfaceInteraction_ctor (Normalize_overflow single_max) Cross_exact
        (Point3fi (0, 0) (0, 0) (0, 0)) (0, 0) (Tuple3 0 0 1) (Tuple3 1 0 0) (Tuple3 0 1 0)
        (Tuple3 0 0 0) (Tuple3 0 0 0) 0 True)
   \<and> Interaction.n'
     (SurfaceInteraction_ctor (Normalize_overflow single_max) Cross_exact
        (Point3fi (0, 0) (0, 0) (0, 0)) (0, 0) (Tuple3 0 0 1) (Tuple3 1 0 0) (Tuple3 0 1 0)
        (Tuple3 0 0 0) (Tuple3 0 0 0) 0 True) = Tuple3 0 0 (- 1)"
proof -
  have n: "Normalize_overflow single_max (Cross_exact (Tuple3 1 0 0) (Tuple3 0 1 0)) = Tuple3 0 0 1"
    by (simp add: Normalize_overflow_def single_max_def)
  then have nz: "Normalize_overflow single_max (Cross_exact (Tuple3 1 0 0) (Tuple3 0 1 0)) \<noteq> Tuple3 0 0 0"
    by simp
  have a: "IsSurfaceInteraction
     (SurfaceInteraction_ctor (Normalize_overflow single_max) Cross_exact
        (Point3fi (0, 0) (0, 0) (0, 0)) (0, 0) (Tuple3 0 0 1) (Tuple3 1 0 0) (Tuple3 0 1 0)
        (Tuple3 0 0 0) (Tuple3 0 0 0) 0 True)"
    using Interaction_classification [where Normalize = "Normalize_overflow single_max"
      and Cross = Cross_exact and du = "Tuple3 1 0 0" and dv = "Tuple3 0 1 0"
      and pnt = "Point3fi (0, 0) (0, 0) (0, 0)" and uvp = "(0, 0)" and wout = "Tuple3 0 0 1"
      and ndu = "Tuple3 0 0 0" and ndv = "Tuple3 0 0 0" and tm = 0 and flipNormal = True] nz
    by blast
  have b: "Interaction.n'
     (SurfaceInteraction_ctor (Normalize_overflow single_max) Cross_exact
        (Point3fi (0, 0) (0, 0) (0, 0)) (0, 0) (Tuple3 0 0 1) (Tuple3 1 0 0) (Tuple3 0 1 0)
        (Tuple3 0 0 0) (Tuple3 0 0 0) 0 True) = Tuple3 0 0 (- 1)"
    using n by (simp add: SurfaceInteraction_ctor_def Let_def Interaction_pi_n_uv_wo_time_def
          Interaction_default_def Interaction.extend_def)
  from a b show ?thesis by (rule conjI)
qed

text \<open>
  Not every \<open>SurfaceInteraction\<close> that the constructor builds is classified as a surface
  interaction. In single precision, \<open>dpdu = (2^60, 0, 0)\<close> and \<open>dpdv = (0, 2^60, 0)\<close> have
  the cross product \<open>(0, 0, 2^120)\<close>, a finite value whose squared length \<open>2^240\<close> is
  not, so the normalised vector and with it the stored normal is \<open>(0, 0, 0)\<close>. In double
  precision the same happens at \<open>2^500\<close>.
\<close>

theorem Interaction_classification_counterexample:
  "Cross_exact (Tuple3 (2 ^ 60) 0 0) (Tuple3 0 (2 ^ 60) 0) = Tuple3 0 0 (2 ^ 120)
   \<and> 2 ^ 120 \<le> single_max
   \<and> \<not> IsSurfaceInteraction
     (SurfaceInteraction_ctor (Normalize_overflow single_max) Cross_exact
        (Point3fi (0, 0) (0, 0) (0, 0)) (0, 0) (Tuple3 0 0 1) (Tuple3 (2 ^ 60) 0 0) (Tuple3 0 (2 ^ 60) 0)
        (Tuple3 0 0 0) (Tuple3 0 0 0) 0 False)
   \<and> Cross_exact (Tuple3 (2 ^ 500) 0 0) (Tuple3 0 (2 ^ 500) 0) = Tuple3 0 0 (2 ^ 1000)
   \<and> 2 ^ 1000 \<le> double_max
   \<and> \<not> IsSurfaceInteraction
     (SurfaceInteraction_ctor (Normalize_overflow double_max) Cross_exact
        (Point3fi (0, 0) (0, 0) (0, 0)) (0, 0) (Tuple3 0 0 1) (Tuple3 (2 ^ 500) 0 0) (Tuple3 0 (2 ^ 500) 0)
        (Tuple3 0 0 0) (Tuple3 0 0 0) 0 False)"
  by (simp add: IsSurfaceInteraction_def SurfaceInteraction_ctor_def Let_def
        Interaction_pi_n_uv_wo_time_def Interaction_default_def Interaction.extend_def
        Normalize_overflow_def single_max_def double_max_def)

section \<open>Properties of the integrators\<close>

subsection \<open>The constructors\<close>

lemma Integrator_loop_heap:
  "snd (Integrator_loop c sb ls (infl, h)) = fold (Light_Preprocess c sb) ls h"
  by (induction ls arbitrary: infl h) (simp_all add: Let_def)

lemma Integrator_loop_members:
  "fst (Integrator_loop c sb ls (infl, h)) =
     infl @ map fst (filter (\<lambda>(l, hl). Light_Type c l hl = Infinite)
                       (zip ls (Preprocess_heaps c sb ls h)))"
  by (induction ls arbitrary: infl h) (simp_all add: Let_def)

lemma stable_Type_filter:
  assumes "\<And>b l l' s. Light_Type c l (Light_Preprocess c b l' s) = Light_Type c l s"
  shows "map fst (filter (\<lambda>(l, hl). Light_Type c l hl = Infinite)
                    (zip ls (Preprocess_heaps c sb ls h))) =
         filter (\<lambda>l. Light_Type c l h = Infinite) ls"
  by (induction ls arbitrary: h) (simp_all add: assms)

text \<open>
  Claim C3. After the \<open>Integrator\<close> constructor has run on an aggregate and a list of
  lights, the heap is the one obtained by calling \<open>Preprocess(sceneBounds)\<close> once on
  each light of the list, in list order, where \<open>sceneBounds\<close> is the bounds of the
  aggregate if its handle is not empty and the default bounds otherwise; the member
  \<open>lights\<close> is the whole list and \<open>aggregate\<close> the given handle; \<open>infiniteLights\<close>
  holds, in the order of the list, exactly the lights whose \<open>Type()\<close>, read after their
  own \<open>Preprocess\<close>, is \<open>Infinite\<close>; and when \<open>Preprocess\<close> does not change the type
  of a light, these are the lights of the list whose type is \<open>Infinite\<close>.
\<close>

theorem Integrator_ctor_partition:
  assumes "Integrator_ctor c agg ls h = (I, h')"
    and "sceneBounds = (if operator_bool agg then Primitive_Bounds c agg h else Bounds3f_default c)"
  shows "h' = fold (Light_Preprocess c sceneBounds) ls h
       \<and> lights I = ls
       \<and> aggregate I = agg
       \<and> infiniteLights I =
           map fst (filter (\<lambda>(l, hl). Light_Type c l hl = Infinite)
                      (zip ls (Preprocess_heaps c sceneBounds ls h)))
       \<and> ((\<forall>b l l' s. Light_Type c l (Light_Preprocess c b l' s) = Light_Type c l s)
            \<longrightarrow> infiniteLights I = filter (\<lambda>l. Light_Type c l h = Infinite) ls)"
proof -
  obtain infl h1 where loop: "Integrator_loop c sceneBounds ls ([], h) = (infl, h1)"
    by (cases "Integrator_loop c sceneBounds ls ([], h)")
  have I: "I = \<lparr>aggregate = agg, lights = ls, infiniteLights = infl\<rparr>" and h: "h' = h1"
    using assms(1) loop by (simp_all add: Integrator_ctor_def assms(2) [symmetric])
  have heap: "h1 = fold (Light_Preprocess c sceneBounds) ls h"
    using Integrator_loop_heap [of c sceneBounds ls "[]" h] loop by simp
  have members: "infl = map fst (filter (\<lambda>(l, hl). Light_Type c l hl = Infinite)
                                  (zip ls (Preprocess_heaps c sceneBounds ls h)))"
    using Integrator_loop_members [of c sceneBounds ls "[]" h] loop by simp
  have "infl = filter (\<lambda>l. Light_Type c l h = Infinite) ls"
    if "\<forall>b l l' s. Light_Type c l (Light_Preprocess c b l' s) = Light_Type c l s"
    using stable_Type_filter [of c ls sceneBounds h] that members by simp
  with heap members show ?thesis using I h by simp
qed

theorem Integrator_ctor_partition_witness:
  "Integrator_ctor example_world \<lparr>bits = 64\<rparr> [\<lparr>bits = 16\<rparr>, \<lparr>bits = 32\<rparr>, \<lparr>bits = 48\<rparr>] [] =
     (\<lparr>aggregate = \<lparr>bits = 64\<rparr>, lights = [\<lparr>bits = 16\<rparr>, \<lparr>bits = 32\<rparr>, \<lparr>bits = 48\<rparr>],
       infiniteLights = [\<lparr>bits = 16\<rparr>, \<lparr>bits = 48\<rparr>]\<rparr>,
      [(16, 7), (32, 7), (48, 7)])
   \<and> snd (Integrator_ctor example_world \<lparr>bits = 0\<rparr> [\<lparr>bits = 16\<rparr>, \<lparr>bits = 32\<rparr>] []) =
       [(16, 0), (32, 0)]"
proof -
  obtain I h' where r: "Integrator_ctor example_world \<lparr>bits = 64\<rparr>
         [\<lparr>bits = 16\<rparr>, \<lparr>bits = 32\<rparr>, \<lparr>bits = 48\<rparr>] [] = (I, h')"
    by (cases "Integrator_ctor example_world \<lparr>bits = 64\<rparr> [\<lparr>bits = 16\<rparr>, \<lparr>bits = 32\<rparr>, \<lparr>bits = 48\<rparr>] []")
  obtain J k' where q: "Integrator_ctor example_world \<lparr>bits = 0\<rparr>
         [\<lparr>bits = 16\<rparr>, \<lparr>bits = 32\<rparr>] [] = (J, k')"
    by (cases "Integrator_ctor example_world \<lparr>bits = 0\<rparr> [\<lparr>bits = 16\<rparr>, \<lparr>bits = 32\<rparr>] []")
  have stable: "\<forall>b l l' s. Light_Type example_world l (Light_Preprocess example_world b l' s) =
                  Light_Type example_world l s"
    by (simp add: example_world_def)
  have nonempty: "7 = (if operator_bool \<lparr>bits = 64\<rparr>
                       then Primitive_Bounds example_world \<lparr>bits = 64\<rparr> []
                       else Bounds3f_default example_world)"
    and empty: "0 = (if operator_bool \<lparr>bits = 0\<rparr>
                     then Primitive_Bounds example_world \<lparr>bits = 0\<rparr> []
                     else Bounds3f_default example_world)"
    by (simp_all add: operator_bool_def ptrMask_def tagMask_def tagShift_def tagBits_def
          example_world_def)
  from Integrator_ctor_partition [OF r nonempty] stable
  have "h' = [(16, 7), (32, 7), (48, 7)]" "lights I = [\<lparr>bits = 16\<rparr>, \<lparr>bits = 32\<rparr>, \<lparr>bits = 48\<rparr>]"
    "aggregate I = \<lparr>bits = 64\<rparr>" "infiniteLights I = [\<lparr>bits = 16\<rparr>, \<lparr>bits = 48\<rparr>]"
    by (simp_all add: example_world_def)
  moreover from Integrator_ctor_partition [OF q empty]
  have "k' = [(16, 0), (32, 0)]" by (simp add: example_world_def)
  ultimately show ?thesis using r q by simp
qed

lemma Dispatch_from_ptr:
  assumes "k < n" and "n \<le> 127" and "p AND ptrMask = p" and "p \<noteq> 0"
    and "TaggedPointer_ptr k p = Inr h"
  shows "Dispatch n func h = Inr (func k p)"
proof -
  note r = TaggedPointer_ptr_Inr [OF assms(5)]
  have tag: "Tag h = TypeIndex (Some k)"
    unfolding r(2) using assms(3) TypeIndex_small [OF assms(1,2)] by (rule Tag_make)
  have addr: "ptr h = p" unfolding r(2) using assms(3) by (rule ptr_make)
  have idx: "sint (Tag h - 1) = int k" using tag tag_index [OF assms(1,2)] by (simp only:)
  show ?thesis
    using assms(4) addr idx detail_Dispatch_routes [OF assms(1), of 0 func p]
    by (simp add: Dispatch_def)
qed

lemma SPPMIntegrator_ctor_positive:
  assumes "0 < sint ppi"
  shows "\<exists>S. SPPMIntegrator_ctor c cam smp agg ls ppi md r seed cs h
               = Inr (S, snd (Integrator_ctor c agg ls h))
             \<and> photonsPerIteration S = ppi"
  using assms by (simp add: SPPMIntegrator_ctor_def split: prod.splits)

lemma SPPMIntegrator_ctor_area:
  assumes "sint ppi \<le> 0"
    and "Camera_GetFilm c cam (snd (Integrator_ctor c agg ls h)) = Inr film"
    and "PixelBounds_Area c film (snd (Integrator_ctor c agg ls h)) = Inr a"
  shows "\<exists>S. SPPMIntegrator_ctor c cam smp agg ls ppi md r seed cs h
               = Inr (S, snd (Integrator_ctor c agg ls h))
             \<and> photonsPerIteration S = a"
proof -
  obtain base h1 where b: "Integrator_ctor c agg ls h = (base, h1)"
    by (cases "Integrator_ctor c agg ls h")
  with assms show ?thesis by (simp add: SPPMIntegrator_ctor_def)
qed

lemma SPPMIntegrator_ctor_Inr:
  assumes "SPPMIntegrator_ctor c cam smp agg ls ppi md r seed cs h = Inr (S, h')"
  shows "h' = snd (Integrator_ctor c agg ls h)"
    and "0 < sint ppi \<Longrightarrow> photonsPerIteration S = ppi"
    and "sint ppi \<le> 0 \<Longrightarrow> \<exists>film. Camera_GetFilm c cam h' = Inr film
                                 \<and> PixelBounds_Area c film h' = Inr (photonsPerIteration S)"
  using assms
  by (auto simp add: SPPMIntegrator_ctor_def split: prod.splits sum.splits if_splits)

text \<open>
  Claim C10. An \<open>SPPMIntegrator\<close> constructed with \<open>photonsPerIteration \<le> 0\<close> stores
  the area of the pixel bounds of the camera's film in that member; constructed with a
  positive value it stores the value. With a positive value the construction always
  completes; otherwise it completes when the camera is a handle built from a non-null
  pointer to one of the four camera types and the area query on its film succeeds.
\<close>

theorem SPPMIntegrator_photonsPerIteration:
  "(SPPMIntegrator_ctor c cam smp agg ls ppi md r seed cs h = Inr (S, h') \<longrightarrow>
       (sint ppi \<le> 0 \<longrightarrow> (\<exists>film. Camera_GetFilm c cam h' = Inr film
                               \<and> PixelBounds_Area c film h' = Inr (photonsPerIteration S)))
     \<and> (0 < sint ppi \<longrightarrow> photonsPerIteration S = ppi))
   \<and> (0 < sint ppi \<longrightarrow>
       (\<exists>S1. SPPMIntegrator_ctor c cam smp agg ls ppi md r seed cs h
               = Inr (S1, snd (Integrator_ctor c agg ls h))
            \<and> photonsPerIteration S1 = ppi))
   \<and> (sint ppi \<le> 0 \<and> k < 4 \<and> p AND ptrMask = p \<and> p \<noteq> 0 \<and> TaggedPointer_ptr k p = Inr cam
        \<and> PixelBounds_Area c (CameraBase_film c k p (snd (Integrator_ctor c agg ls h)))
             (snd (Integrator_ctor c agg ls h)) = Inr a \<longrightarrow>
       (\<exists>S2. SPPMIntegrator_ctor c cam smp agg ls ppi md r seed cs h
               = Inr (S2, snd (Integrator_ctor c agg ls h))
            \<and> photonsPerIteration S2 = a))"
proof -
  define h1 where "h1 = snd (Integrator_ctor c agg ls h)"
  have a: "(sint ppi \<le> 0 \<longrightarrow> (\<exists>film. Camera_GetFilm c cam h' = Inr film
                               \<and> PixelBounds_Area c film h' = Inr (photonsPerIteration S)))
     \<and> (0 < sint ppi \<longrightarrow> photonsPerIteration S = ppi)"
    if "SPPMIntegrator_ctor c cam smp agg ls ppi md r seed cs h = Inr (S, h')"
    using SPPMIntegrator_ctor_Inr(2,3) [OF that] by blast
  have b: "\<exists>S1. SPPMIntegrator_ctor c cam smp agg ls ppi md r seed cs h = Inr (S1, h1)
            \<and> photonsPerIteration S1 = ppi" if "0 < sint ppi"
    unfolding h1_def using that by (rule SPPMIntegrator_ctor_positive)
  have d: "\<exists>S2. SPPMIntegrator_ctor c cam smp agg ls ppi md r seed cs h = Inr (S2, h1)
            \<and> photonsPerIteration S2 = a"
    if "sint ppi \<le> 0" and "k < 4" and "p AND ptrMask = p" and "p \<noteq> 0"
      and "TaggedPointer_ptr k p = Inr cam"
      and "PixelBounds_Area c (CameraBase_film c k p h1) h1 = Inr a"
  proof -
    have "(4::nat) \<le> 127" by simp
    with that(2) have "Camera_GetFilm c cam h1 = Inr (CameraBase_film c k p h1)"
      unfolding Camera_GetFilm_def using that(3,4,5) by (rule Dispatch_from_ptr)
    with that(1) show ?thesis unfolding h1_def using that(6) [unfolded h1_def]
      by (rule SPPMIntegrator_ctor_area)
  qed
  from a b d show ?thesis unfolding h1_def by blast
qed

theorem SPPMIntegrator_photonsPerIteration_witness:
  "TaggedPointer_ptr 0 4096 = Inr \<lparr>bits = 0x0200000000001000\<rparr>
   \<and> map_sum id (photonsPerIteration \<circ> fst)
        (SPPMIntegrator_ctor example_world \<lparr>bits = 0x0200000000001000\<rparr> \<lparr>bits = 256\<rparr>
           \<lparr>bits = 64\<rparr> [\<lparr>bits = 16\<rparr>] (- 1) 5 1 0 0 []) = Inr 1200
   \<and> map_sum id (photonsPerIteration \<circ> fst)
        (SPPMIntegrator_ctor example_world \<lparr>bits = 0x0200000000001000\<rparr> \<lparr>bits = 256\<rparr>
           \<lparr>bits = 64\<rparr> [\<lparr>bits = 16\<rparr>] 0 5 1 0 0 []) = Inr 1200
   \<and> map_sum id (photonsPerIteration \<circ> fst)
        (SPPMIntegrator_ctor example_world \<lparr>bits = 0x0200000000001000\<rparr> \<lparr>bits = 256\<rparr>
           \<lparr>bits = 64\<rparr> [\<lparr>bits = 16\<rparr>] 4096 5 1 0 0 []) = Inr 4096"
proof -
  have a: "sint (- 1 :: 32 word) \<le> 0" and b: "sint (0 :: 32 word) \<le> 0"
    and c: "0 < sint (4096 :: 32 word)" by simp_all
  have k: "(0::nat) < 4" by simp
  have p: "(4096::64 word) AND ptrMask = 4096" and nz: "(4096::64 word) \<noteq> 0"
    by (simp_all add: ptrMask_def tagMask_def tagShift_def tagBits_def)
  have mk: "TaggedPointer_ptr 0 4096 = Inr \<lparr>bits = 0x0200000000001000\<rparr>"
    by (simp add: TaggedPointer_ptr_def ptrMask_def tagMask_def tagShift_def tagBits_def)
  have area: "\<And>film h. PixelBounds_Area example_world film h = Inr 1200"
    by (simp add: example_world_def)
  note t = SPPMIntegrator_photonsPerIteration [where c = example_world
      and cam = "\<lparr>bits = 0x0200000000001000\<rparr>" and smp = "\<lparr>bits = 256\<rparr>"
      and agg = "\<lparr>bits = 64\<rparr>" and ls = "[\<lparr>bits = 16\<rparr>]" and md = 5 and r = 1
      and seed = 0 and cs = 0 and h = "[]" and k = 0 and p = 4096 and a = 1200]
  from t [where ppi = "- 1"] a k p nz mk area
  have "\<exists>S2. SPPMIntegrator_ctor example_world \<lparr>bits = 0x0200000000001000\<rparr> \<lparr>bits = 256\<rparr>
           \<lparr>bits = 64\<rparr> [\<lparr>bits = 16\<rparr>] (- 1) 5 1 0 0 [] =
           Inr (S2, snd (Integrator_ctor example_world \<lparr>bits = 64\<rparr> [\<lparr>bits = 16\<rparr>] []))
         \<and> photonsPerIteration S2 = 1200" by blast
  moreover from t [where ppi = 0] b k p nz mk area
  have "\<exists>S2. SPPMIntegrator_ctor example_world \<lparr>bits = 0x0200000000001000\<rparr> \<lparr>bits = 256\<rparr>
           \<lparr>bits = 64\<rparr> [\<lparr>bits = 16\<rparr>] 0 5 1 0 0 [] =
           Inr (S2, snd (Integrator_ctor example_world \<lparr>bits = 64\<rparr> [\<lparr>bits = 16\<rparr>] []))
         \<and> photonsPerIteration S2 = 1200" by blast
  moreover from t [where ppi = 4096] c
  have "\<exists>S1. SPPMIntegrator_ctor example_world \<lparr>bits = 0x0200000000001000\<rparr> \<lparr>bits = 256\<rparr>
           \<lparr>bits = 64\<rparr> [\<lparr>bits = 16\<rparr>] 4096 5 1 0 0 [] =
           Inr (S1, snd (Integrator_ctor example_world \<lparr>bits = 64\<rparr> [\<lparr>bits = 16\<rparr>] []))
         \<and> photonsPerIteration S1 = 4096" by blast
  ultimately show ?thesis using mk by auto
qed

text \<open>With an empty camera handle and no positive value, \<open>GetFilm\<close> fails its check.\<close>

lemma SPPMIntegrator_ctor_empty_camera:
  "SPPMIntegrator_ctor example_world TaggedPointer_nullptr \<lparr>bits = 256\<rparr>
           \<lparr>bits = 64\<rparr> [\<lparr>bits = 16\<rparr>] 0 5 1 0 0 [] = Inl CheckFailed"
  by (simp add: SPPMIntegrator_ctor_def Camera_GetFilm_def Dispatch_def ptr_def
        TaggedPointer_nullptr_def split: prod.splits)

subsection \<open>The random walk\<close>

text \<open>
  Claim C5. When the intersection query finds no hit for the ray, \<open>LiRandomWalk\<close> returns
  the sum, taken in list order from zero, of \<open>light.Le(ray, lambda)\<close> over
  \<open>infiniteLights\<close>, with no weight applied; the state is unchanged and the only
  activation of the function is the call itself.
\<close>

theorem LiRandomWalk_miss:
  assumes "Intersect sc ray = None"
  shows "LiRandomWalk sc this ray st depth =
           (foldl (+) 0 (map (\<lambda>light. Light_Le sc light ray st) (infiniteLights this)), st, [depth])"
  using assms by (simp add: LiRandomWalk.simps foldl_map)

theorem LiRandomWalk_miss_witness:
  "LiRandomWalk example_scene example_integrator 2 0 3 = (5, 0, [3])"
proof -
  have "Intersect example_scene 2 = None" by (simp add: example_scene_def)
  from LiRandomWalk_miss [OF this, of example_integrator 0 3]
  show ?thesis by (simp add: example_scene_def example_integrator_def)
qed

text \<open>
  Claim C6, amended in its last part. When the ray hits a surface and either \<open>GetBSDF\<close>
  yields an empty BSDF or the BSDF value for the sampled direction times the absolute
  cosine is zero, \<open>LiRandomWalk\<close> returns exactly the radiance \<open>Le\<close> emitted at the hit,
  as a value and with no further activation of the function; the code does not test that
  value, so what it returns is finite exactly when \<open>Le\<close> is.
\<close>

theorem LiRandomWalk_early_termination:
  assumes "Intersect sc ray = Some isect"
    and "GetBSDF sc isect ray (ImageTileIntegrator.camera this) st = (bsdf, isect1, st1)"
    and "Get2D sc st1 = (u, st2)"
    and "\<not> BSDF_bool sc bsdf
         \<or> \<not> SampledSpectrum_bool sc
               (scale sc (BSDF_f sc bsdf (neg sc (ray_d sc ray)) (SampleUniformSphere sc u))
                  (AbsDot sc (SampleUniformSphere sc u) (shading_n sc isect1)))"
  shows "fst (LiRandomWalk sc this ray st depth) = isect_Le sc isect (neg sc (ray_d sc ray)) st
       \<and> snd (snd (LiRandomWalk sc this ray st depth)) = [depth]
       \<and> isfinite (fst (LiRandomWalk sc this ray st depth))
           = isfinite (isect_Le sc isect (neg sc (ray_d sc ray)) st)"
proof -
  have "fst (LiRandomWalk sc this ray st depth) = isect_Le sc isect (neg sc (ray_d sc ray)) st
       \<and> snd (snd (LiRandomWalk sc this ray st depth)) = [depth]"
    using assms by (subst (1 2) LiRandomWalk.simps) (auto simp add: Let_def)
  then show ?thesis by simp
qed

theorem LiRandomWalk_early_termination_witness:
  "fst (LiRandomWalk example_scene example_integrator 7 0 3) = 1
     \<and> snd (snd (LiRandomWalk example_scene example_integrator 7 0 3)) = [3]
     \<and> fst (LiRandomWalk example_scene example_integrator 8 0 3) = 1
     \<and> snd (snd (LiRandomWalk example_scene example_integrator 8 0 3)) = [3]"
proof -
  have a: "Intersect example_scene 7 = Some 7" and b: "Intersect example_scene 8 = Some 8"
    by (simp_all add: example_scene_def)
  have g7: "GetBSDF example_scene 7 7 (ImageTileIntegrator.camera example_integrator) 0 = (7, 7, 0)"
    and g8: "GetBSDF example_scene 8 8 (ImageTileIntegrator.camera example_integrator) 0 = (8, 8, 0)"
    by (simp_all add: example_scene_def)
  have s: "Get2D example_scene 0 = ((1 / 2, 1 / 2), 1)" by (simp add: example_scene_def)
  have c7: "\<not> BSDF_bool example_scene 7" by (simp add: example_scene_def)
  have c8: "\<not> SampledSpectrum_bool example_scene
               (scale example_scene
                  (BSDF_f example_scene 8 (neg example_scene (ray_d example_scene 8))
                     (SampleUniformSphere example_scene (1 / 2, 1 / 2)))
                  (AbsDot example_scene (SampleUniformSphere example_scene (1 / 2, 1 / 2))
                     (shading_n example_scene 8)))"
    by (simp add: example_scene_def)
  have l7: "isect_Le example_scene 7 (neg example_scene (ray_d example_scene 7)) 0 = 1"
    and l8: "isect_Le example_scene 8 (neg example_scene (ray_d example_scene 8)) 0 = 1"
    by (simp_all add: example_scene_def)
  from LiRandomWalk_early_termination [OF a g7 s disjI1 [OF c7],
         where depth = 3 and isfinite = "\<lambda>x. True"]
       LiRandomWalk_early_termination [OF b g8 s disjI2 [OF c8],
         where depth = 3 and isfinite = "\<lambda>x. True"] l7 l8
  show ?thesis by simp
qed

text \<open>
  The returned value can be non-finite: at a hit with no BSDF whose emitted radiance is
  not finite, the function returns that radiance.
\<close>

theorem LiRandomWalk_early_termination_counterexample:
  "Intersect glowing_scene 0 = Some 0
   \<and> \<not> BSDF_bool glowing_scene
         (fst (GetBSDF glowing_scene 0 0 (ImageTileIntegrator.camera example_integrator) 0))
   \<and> fst (LiRandomWalk glowing_scene example_integrator 0 0 0) = NonFinite
   \<and> \<not> radiance_finite (fst (LiRandomWalk glowing_scene example_integrator 0 0 0))"
  by (simp add: LiRandomWalk.simps glowing_scene_def example_integrator_def)

lemma unat_step:
  fixes depth m :: "32 word"
  assumes "depth \<noteq> m"
  shows "Suc (unat (m - (depth + 1))) = unat (m - depth)"
proof -
  define x where "x = m - depth"
  have nz: "x \<noteq> 0" using assms by (simp add: x_def)
  have step: "m - (depth + 1) = x - 1" by (simp add: x_def)
  have "unat (x - 1) = unat x - 1" using nz by (rule unat_minus_one)
  moreover have "0 < unat x" using nz by (simp add: unat_gt_0)
  ultimately have "Suc (unat (x - 1)) = unat x" by simp
  then show ?thesis by (simp only: step) (simp only: x_def)
qed

lemma LiRandomWalk_depths:
  "snd (snd (LiRandomWalk sc this ray st depth)) \<noteq> []
   \<and> length (snd (snd (LiRandomWalk sc this ray st depth)))
        \<le> unat (RandomWalkIntegrator.maxDepth this - depth) + 1
   \<and> (\<forall>i < length (snd (snd (LiRandomWalk sc this ray st depth))).
         snd (snd (LiRandomWalk sc this ray st depth)) ! i = depth + of_nat i)"
proof (induction "unat (RandomWalkIntegrator.maxDepth this - depth)" arbitrary: depth ray st)
  case 0
  then have "depth = RandomWalkIntegrator.maxDepth this" by (simp add: unat_eq_0)
  then show ?case
    by (subst (1 2 3 4) LiRandomWalk.simps) (simp add: Let_def split: option.splits)
next
  case (Suc m)
  then have ne: "depth \<noteq> RandomWalkIntegrator.maxDepth this" by auto
  have m: "m = unat (RandomWalkIntegrator.maxDepth this - (depth + 1))"
    using unat_step [OF ne] Suc.hyps(2) by simp
  note IH = Suc.hyps(1) [OF m]
  show ?case
  proof (cases "Intersect sc ray")
    case None
    then show ?thesis by (subst (1 2 3 4) LiRandomWalk.simps) simp
  next
    case (Some isect)
    obtain bsdf isect1 st1 where g: "GetBSDF sc isect ray (ImageTileIntegrator.camera this) st = (bsdf, isect1, st1)"
      by (cases "GetBSDF sc isect ray (ImageTileIntegrator.camera this) st")
    obtain u st2 where s: "Get2D sc st1 = (u, st2)" by (cases "Get2D sc st1")
    define wo where "wo = neg sc (ray_d sc ray)"
    define wp where "wp = SampleUniformSphere sc u"
    define fcos where "fcos = scale sc (BSDF_f sc bsdf wo wp) (AbsDot sc wp (shading_n sc isect1))"
    show ?thesis
    proof (cases "BSDF_bool sc bsdf \<and> SampledSpectrum_bool sc fcos")
      case False
      then show ?thesis using Some g s ne
        by (subst (1 2 3 4) LiRandomWalk.simps)
           (auto simp add: Let_def wo_def wp_def fcos_def)
    next
      case True
      define ray1 where "ray1 = SpawnRay sc isect1 wp"
      obtain Li1 st3 ds where r: "LiRandomWalk sc this ray1 st2 (depth + 1) = (Li1, st3, ds)"
        by (cases "LiRandomWalk sc this ray1 st2 (depth + 1)")
      have eq: "snd (snd (LiRandomWalk sc this ray st depth)) = depth # ds"
        using Some g s ne True r
        by (subst LiRandomWalk.simps)
           (simp add: Let_def wo_def wp_def fcos_def ray1_def)
      from IH [of ray1 st2] r have ds: "ds \<noteq> []" "length ds \<le> m + 1"
        "\<forall>i<length ds. ds ! i = depth + 1 + of_nat i" by (simp_all add: m)
      have "\<forall>i<length (depth # ds). (depth # ds) ! i = depth + of_nat i"
      proof (intro allI impI)
        fix i assume "i < length (depth # ds)"
        then show "(depth # ds) ! i = depth + of_nat i"
          using ds(3) by (cases i) (simp_all add: ac_simps)
      qed
      then show ?thesis using ds(2) Suc.hyps(2) by (simp add: eq)
    qed
  qed
qed

lemma unat_nonneg_sint:
  fixes w :: "32 word"
  assumes "0 \<le> sint w"
  shows "unat w = nat (sint w)"
proof -
  have "sint w < 2 ^ (LENGTH(32) - 1)" by (rule sint_lt)
  then have "sint w < 2 ^ LENGTH(32)" by simp
  with assms have "take_bit LENGTH(32) (sint w) = sint w" by (rule take_bit_int_eq_self)
  then have "uint w = sint w" by (simp only: uint_sint)
  then show ?thesis by (simp only: unat_eq_nat_uint)
qed

lemma unat_lt_2p31:
  fixes w :: "32 word"
  assumes "0 \<le> sint w"
  shows "unat w < 2 ^ 31"
proof -
  have "sint w < 2 ^ (LENGTH(32) - 1)" by (rule sint_lt)
  then have "nat (sint w) < 2 ^ 31" using assms by simp
  then show ?thesis using unat_nonneg_sint [OF assms] by simp
qed

text \<open>
  Claim C7. For \<open>maxDepth \<ge> 0\<close>, \<open>Li\<close> returns. The activations of \<open>LiRandomWalk\<close>
  it starts have the depths 0, 1, 2, ... in this order, each one more than the one before;
  there are at most \<open>maxDepth + 1\<close> of them; and an activation whose depth equals
  \<open>maxDepth\<close> is the last one.
\<close>

theorem Li_terminates:
  assumes "0 \<le> sint (RandomWalkIntegrator.maxDepth this)"
  shows "\<exists>L st' ds. Li sc this ray st = (L, st', ds)
           \<and> ds \<noteq> []
           \<and> length ds \<le> nat (sint (RandomWalkIntegrator.maxDepth this)) + 1
           \<and> (\<forall>i<length ds. ds ! i = of_nat i)
           \<and> (\<forall>i<length ds. ds ! i = RandomWalkIntegrator.maxDepth this \<longrightarrow> Suc i = length ds)"
proof -
  define M where "M = nat (sint (RandomWalkIntegrator.maxDepth this))"
  obtain L st' ds where r: "LiRandomWalk sc this ray st 0 = (L, st', ds)"
    by (cases "LiRandomWalk sc this ray st 0")
  have uM: "unat (RandomWalkIntegrator.maxDepth this) = M"
    unfolding M_def using assms by (rule unat_nonneg_sint)
  from LiRandomWalk_depths [of sc this ray st 0] r
  have ne: "ds \<noteq> []" and len: "length ds \<le> M + 1" and idx: "\<forall>i<length ds. ds ! i = of_nat i"
    by (simp_all add: uM)
  have stop: "Suc i = length ds" if i: "i < length ds" and "ds ! i = RandomWalkIntegrator.maxDepth this" for i
  proof -
    have e: "(of_nat i :: 32 word) = RandomWalkIntegrator.maxDepth this" using idx that by simp
    have "M < 2 ^ 31" using unat_lt_2p31 [OF assms] uM by simp
    with i len have "i < 2 ^ LENGTH(32)" by simp
    then have "unat (of_nat i :: 32 word) = i" by (rule of_nat_inverse [OF refl])
    then have "i = M" using e uM by simp
    with i len show ?thesis by simp
  qed
  from r ne len idx stop show ?thesis by (simp add: Li_def M_def)
qed

theorem Li_terminates_witness:
  "0 \<le> sint (RandomWalkIntegrator.maxDepth (example_integrator\<lparr>RandomWalkIntegrator.maxDepth := 1\<rparr>))
     \<and> snd (snd (Li example_scene (example_integrator\<lparr>RandomWalkIntegrator.maxDepth := 1\<rparr>) 0 0)) = [0, 1]
     \<and> snd (snd (Li example_scene example_integrator 0 0)) = [0, 1, 2]"
proof -
  have h: "0 \<le> sint (RandomWalkIntegrator.maxDepth (example_integrator\<lparr>RandomWalkIntegrator.maxDepth := 1\<rparr>))"
    by (simp add: example_integrator_def)
  have a: "snd (snd (Li example_scene (example_integrator\<lparr>RandomWalkIntegrator.maxDepth := 1\<rparr>) 0 0)) = [0, 1]"
    by (simp add: Li_def LiRandomWalk.simps example_scene_def example_integrator_def)
  have b: "snd (snd (Li example_scene example_integrator 0 0)) = [0, 1, 2]"
    by (simp add: Li_def LiRandomWalk.simps example_scene_def example_integrator_def)
  from Li_terminates [OF h, of example_scene 0 0] a b h
  show ?thesis by simp
qed

end
